theory Spec2Isabelle
  imports Main "HOL-Library.Char_ord" "HOL-Library.List_Lexorder"
begin

section \<open>Delmarva load profiles: download, parse, export\<close>

text \<open>
  A shallow embedding of \<^verbatim>\<open>delmarva_load_profiles.py\<close> (class \<^verbatim>\<open>Delmarva\<close>).
  Exceptions are values of \<open>error\<close>; the web server, the file system and the store of
  table objects are explicit arguments and results. Console output (\<^verbatim>\<open>print\<close>) is not
  modelled, except where formatting its arguments can raise.
\<close>

subsection \<open>Exceptions\<close>

datatype value_error =
    NoValidData          \<comment> \<open>"Did not receive any valid data for ..."\<close>
  | InvalidStructure     \<comment> \<open>"Invalid data structure returned. ..."\<close>
  | ShapeMismatch        \<comment> \<open>DataFrame: "n columns passed, passed data had m columns"\<close>
  | FloatParse           \<comment> \<open>astype('float'): "could not convert string to float"\<close>
  | DateParse            \<comment> \<open>to_datetime: the text does not match the format\<close>
  | AllNone              \<comment> \<open>concat: "All objects passed were None"\<close>
  | NoObjects            \<comment> \<open>concat: "No objects to concatenate"\<close>
  | ColumnsOverlap       \<comment> \<open>join: "columns overlap but no suffix specified"\<close>
  | BadFormat            \<comment> \<open>format: a date format applied to a value that is not a date\<close>

datatype error =
    AssertionError
  | TypeError
  | KeyError string
  | AttributeError
  | HTTPError nat
  | RequestException     \<comment> \<open>requests.get itself failed (no response)\<close>
  | ValueError value_error
  | FileExistsError
  | OSError
  | UnboundLocalError

subsection \<open>Python strings\<close>

definition digit_char :: "nat \<Rightarrow> char" where
  "digit_char d = char_of (48 + d)"

fun str_nat :: "nat \<Rightarrow> string" where
  "str_nat n = (if n < 10 then [digit_char n] else str_nat (n div 10) @ [digit_char (n mod 10)])"

declare str_nat.simps [simp del]

definition zfill :: "nat \<Rightarrow> string \<Rightarrow> string" where
  "zfill w s = replicate (w - length s) (CHR ''0'') @ s"

definition lower_char :: "char \<Rightarrow> char" where
  "lower_char c = (if CHR ''A'' \<le> c \<and> c \<le> CHR ''Z'' then char_of (of_char c + (32::nat)) else c)"

definition upper_char :: "char \<Rightarrow> char" where
  "upper_char c = (if CHR ''a'' \<le> c \<and> c \<le> CHR ''z'' then char_of (of_char c - (32::nat)) else c)"

definition lower :: "string \<Rightarrow> string" where
  "lower s = map lower_char s"

definition upper :: "string \<Rightarrow> string" where
  "upper s = map upper_char s"

text \<open>\<^verbatim>\<open>str.isspace\<close> on the characters up to 255.\<close>

definition isspace :: "char \<Rightarrow> bool" where
  "isspace c = ((of_char c :: nat) \<in> {9, 10, 11, 12, 13, 28, 29, 30, 31, 32, 133, 160})"

text \<open>\<^verbatim>\<open>s.split(sep)\<close> for a one-character separator: never an empty list.\<close>

fun split_on :: "char \<Rightarrow> string \<Rightarrow> string list" where
  "split_on sep [] = [[]]"
| "split_on sep (c # cs) =
     (if c = sep then [] # split_on sep cs
      else (case split_on sep cs of
              [] \<Rightarrow> [[c]]
            | w # ws \<Rightarrow> (c # w) # ws))"

text \<open>\<^verbatim>\<open>s.split()\<close>: the maximal runs of non-space characters.\<close>

fun split_ws_acc :: "string \<Rightarrow> string \<Rightarrow> string list" where
  "split_ws_acc acc [] = (if acc = [] then [] else [rev acc])"
| "split_ws_acc acc (c # cs) =
     (if isspace c then (if acc = [] then split_ws_acc [] cs else rev acc # split_ws_acc [] cs)
      else split_ws_acc (c # acc) cs)"

definition split_ws :: "string \<Rightarrow> string list" where
  "split_ws s = split_ws_acc [] s"

definition strip :: "string \<Rightarrow> string" where
  "strip s = rev (dropWhile isspace (rev (dropWhile isspace s)))"

definition replace_char :: "char \<Rightarrow> string \<Rightarrow> string" where
  \<comment> \<open>\<^verbatim>\<open>s.replace(c, '')\<close>\<close>
  "replace_char c s = filter (\<lambda>x. x \<noteq> c) s"

subsection \<open>Dates\<close>

datatype date = Date (year: nat) (month: nat) (day: nat)

definition date_le :: "date \<Rightarrow> date \<Rightarrow> bool" where
  "date_le d e =
     (year d < year e \<or> (year d = year e \<and> (month d < month e \<or> (month d = month e \<and> day d \<le> day e))))"

definition strftime_Ymd :: "date \<Rightarrow> string" where
  \<comment> \<open>\<^verbatim>\<open>'%Y%m%d'\<close>\<close>
  "strftime_Ymd d = zfill 4 (str_nat (year d)) @ zfill 2 (str_nat (month d)) @ zfill 2 (str_nat (day d))"

definition strftime_mdY :: "date \<Rightarrow> string" where
  \<comment> \<open>\<^verbatim>\<open>'%m/%d/%Y'\<close>\<close>
  "strftime_mdY d = zfill 2 (str_nat (month d)) @ ''/'' @ zfill 2 (str_nat (day d)) @ ''/'' @ zfill 4 (str_nat (year d))"

text \<open>
  The \<^verbatim>\<open>dt\<close> argument of the fetcher is any Python object; only whether it has the
  attributes \<^verbatim>\<open>month\<close> and \<^verbatim>\<open>year\<close> matters.
\<close>

datatype pyobj = DateObj date | OtherObj

subsection \<open>The web server\<close>

record response =
  status_code :: nat
  body_text :: string  \<comment> \<open>the attribute \<^verbatim>\<open>text\<close>\<close>

text \<open>
  The network: what the server answers for a URL (or that no answer arrives), and
  the URLs requested so far.
\<close>

record web =
  respond :: "string \<Rightarrow> error + response"
  requested :: "string list"

definition requests_get :: "string \<Rightarrow> web \<Rightarrow> (error + response) \<times> web" where
  "requests_get url w = (respond w url, w\<lparr>requested := requested w @ [url]\<rparr>)"

definition raise_for_status :: "response \<Rightarrow> error option" where
  \<comment> \<open>requests: raises \<^verbatim>\<open>HTTPError\<close> for a 4xx or 5xx status, and for no other\<close>
  "raise_for_status r =
     (if 400 \<le> status_code r \<and> status_code r < 600 then Some (HTTPError (status_code r)) else None)"

subsection \<open>Tables\<close>

text \<open>
  A pandas table: an index, column names and rows of cells. \<open>Null\<close> is the missing
  value (\<^verbatim>\<open>None\<close>, \<^verbatim>\<open>NaN\<close>, \<^verbatim>\<open>NaT\<close>). The type \<open>'f\<close> stands for the
  floating-point numbers; their parsing and printing are taken from \<open>lib\<close> below.
\<close>

datatype 'f cell = Str string | IntVal int | Dt date | Num 'f | Null

record 'f frame =
  index :: "'f cell list"
  columns :: "string list"
  rows :: "'f cell list list"

definition RangeIndex :: "nat \<Rightarrow> 'f cell list" where
  "RangeIndex n = map (\<lambda>i. IntVal (int i)) [0..<n]"

definition empty_frame :: "'f frame" where
  \<comment> \<open>\<^verbatim>\<open>pd.DataFrame()\<close>\<close>
  "empty_frame = \<lparr>index = [], columns = [], rows = []\<rparr>"

fun col_pos :: "string \<Rightarrow> string list \<Rightarrow> nat option" where
  "col_pos c [] = None"
| "col_pos c (x # xs) = (if x = c then Some 0 else map_option Suc (col_pos c xs))"

definition cell_at :: "'f cell list \<Rightarrow> nat \<Rightarrow> 'f cell" where
  "cell_at r j = (if j < length r then r ! j else Null)"

definition getitem :: "'f frame \<Rightarrow> string \<Rightarrow> error + 'f cell list" where
  \<comment> \<open>\<^verbatim>\<open>df[c]\<close>\<close>
  "getitem df c =
     (case col_pos c (columns df) of
        None \<Rightarrow> Inl (KeyError c)
      | Some j \<Rightarrow> Inr (map (\<lambda>r. cell_at r j) (rows df)))"

definition setitem :: "'f frame \<Rightarrow> string \<Rightarrow> 'f cell list \<Rightarrow> 'f frame" where
  \<comment> \<open>\<^verbatim>\<open>df[c] = vals\<close>: an existing column keeps its place, a new one is appended\<close>
  "setitem df c vals =
     (case col_pos c (columns df) of
        Some j \<Rightarrow> df\<lparr>rows := map2 (\<lambda>r v. r[j := v]) (rows df) vals\<rparr>
      | None \<Rightarrow> df\<lparr>columns := columns df @ [c], rows := map2 (\<lambda>r v. r @ [v]) (rows df) vals\<rparr>)"

definition drop_nth :: "nat \<Rightarrow> 'a list \<Rightarrow> 'a list" where
  "drop_nth j xs = take j xs @ drop (Suc j) xs"

definition delitem :: "'f frame \<Rightarrow> string \<Rightarrow> error + 'f frame" where
  \<comment> \<open>\<^verbatim>\<open>del df[c]\<close>\<close>
  "delitem df c =
     (case col_pos c (columns df) of
        None \<Rightarrow> Inl (KeyError c)
      | Some j \<Rightarrow> Inr (df\<lparr>columns := drop_nth j (columns df), rows := map (drop_nth j) (rows df)\<rparr>))"

definition DataFrame :: "string list list \<Rightarrow> string list \<Rightarrow> error + 'f frame" where
  \<comment> \<open>\<^verbatim>\<open>pd.DataFrame(data, columns=cols)\<close> for a list of lists of strings: short rows are
      padded with \<^verbatim>\<open>None\<close>; the widest row must have as many entries as there are columns\<close>
  "DataFrame data cols =
     (if data \<noteq> [] \<and> foldr max (map length data) 0 \<noteq> length cols then Inl (ValueError ShapeMismatch)
      else Inr \<lparr>index = RangeIndex (length data), columns = cols,
                rows = map (\<lambda>r. map Str r @ replicate (length cols - length r) Null) data\<rparr>)"

text \<open>
  The library routines whose results are taken as given: Python's \<^verbatim>\<open>float\<close> on a
  string, \<^verbatim>\<open>pd.to_datetime\<close> with and without a format, \<^verbatim>\<open>pd.date_range\<close> with
  \<^verbatim>\<open>freq='D'\<close>, \<^verbatim>\<open>'%.3f' % x\<close>, and \<^verbatim>\<open>pd.read_csv\<close> with an index column.
  \<open>None\<close> is the routine raising \<^verbatim>\<open>ValueError\<close>.
\<close>

record 'f lib =
  float_of_str :: "string \<Rightarrow> 'f option"
  float_of_int :: "int \<Rightarrow> 'f"
  to_datetime_mdY :: "string \<Rightarrow> date option"
  to_datetime :: "string \<Rightarrow> date option"
  date_range :: "date \<Rightarrow> date \<Rightarrow> date list"
  float_format :: "'f \<Rightarrow> string"
  read_csv :: "string list \<Rightarrow> string \<Rightarrow> error + 'f frame"

subsection \<open>The file system\<close>

record filesystem =
  getcwd :: string
  sep :: string
  dirs :: "string set"
  files :: "string \<rightharpoonup> string list"

definition isdir :: "filesystem \<Rightarrow> string \<Rightarrow> bool" where
  \<comment> \<open>\<^verbatim>\<open>os.path.isdir\<close>\<close>
  "isdir fs p = (p \<in> dirs fs)"

definition exists_path :: "filesystem \<Rightarrow> string \<Rightarrow> bool" where
  \<comment> \<open>\<^verbatim>\<open>os.path.exists\<close>\<close>
  "exists_path fs p = (p \<in> dirs fs \<or> files fs p \<noteq> None)"

subsection \<open>The object and its constructor\<close>

record 'f delmarva =
  dest_path :: string
  ldc_state :: "(string \<times> string) list"
  codes_path :: string
  codes_file_name :: string
  codes :: "'f frame"
  ldcs :: "string list"

definition py_or :: "string option \<Rightarrow> string \<Rightarrow> string" where
  \<comment> \<open>\<^verbatim>\<open>x or d\<close>: \<^verbatim>\<open>None\<close> and the empty string are false\<close>
  "py_or x d = (case x of None \<Rightarrow> d | Some s \<Rightarrow> (if s = [] then d else s))"

definition init :: "'f lib \<Rightarrow> filesystem \<Rightarrow> string option \<Rightarrow> string option \<Rightarrow> error + 'f delmarva" where
  "init lib fs codes_path_arg dest_path_arg =
     (let dest = py_or dest_path_arg (getcwd fs);
          cpath = py_or codes_path_arg (getcwd fs);
          fname = ''delmarva_lp_code_mapping.csv'';
          file_path = cpath @ sep fs @ fname;
          loaded =
            (if exists_path fs file_path
             then (case files fs file_path of
                     None \<Rightarrow> Inl OSError
                   | Some content \<Rightarrow> read_csv lib content ''T_DMS_LOAD_PROFILE'')
             else Inr empty_frame)
      in case loaded of
           Inl e \<Rightarrow> Inl e
         | Inr c \<Rightarrow>
             Inr \<lparr>dest_path = dest,
                  ldc_state = [(''CNM'', ''MD''), (''CND'', ''DE''), (''CNV'', ''VA'')],
                  codes_path = cpath, codes_file_name = fname, codes = c,
                  ldcs = [''CND'', ''CNM'']\<rparr>)"

subsection \<open>Raw fetcher\<close>

definition delmarva_url :: "string \<Rightarrow> nat \<Rightarrow> string \<Rightarrow> string \<Rightarrow> string \<Rightarrow> nat \<Rightarrow> string" where
  "delmarva_url state_lower yr mo sDt state_upper url_index =
     ''http://www2.conectiv.com/cpd/tps/archives/'' @ state_lower @ ''/'' @ str_nat yr @ ''/'' @ mo
       @ ''/'' @ sDt @ state_upper @ ''A'' @ str_nat url_index @ ''.txt''"

text \<open>
  The loop \<^verbatim>\<open>for i in (2, 1): ... else: r.raise_for_status()\<close>: \<open>prev\<close> is the
  response \<^verbatim>\<open>r\<close> of the previous round. Falling off the end of the function
  returns \<^verbatim>\<open>None\<close>.
\<close>

fun fetch_loop :: "'f delmarva \<Rightarrow> date \<Rightarrow> string \<Rightarrow> nat list \<Rightarrow> response option \<Rightarrow> web
    \<Rightarrow> (error + string option) \<times> web" where
  "fetch_loop self dt ldc [] prev w =
     (case prev of
        None \<Rightarrow> (Inl UnboundLocalError, w)
      | Some r \<Rightarrow> (case raise_for_status r of Some e \<Rightarrow> (Inl e, w) | None \<Rightarrow> (Inr None, w)))"
| "fetch_loop self dt ldc (i # rest) prev w =
     (case map_of (ldc_state self) ldc of
        None \<Rightarrow> (Inl (KeyError ldc), w)
      | Some st \<Rightarrow>
          (case requests_get
                  (delmarva_url (lower st) (year dt) (zfill 2 (str_nat (month dt))) (strftime_Ymd dt)
                     (upper st) i) w of
             (Inl e, w') \<Rightarrow> (Inl e, w')
           | (Inr r, w') \<Rightarrow>
               if status_code r = 200 then (Inr (Some (body_text r)), w')
               else fetch_loop self dt ldc rest (Some r) w'))"

definition retrieve_raw_data :: "'f delmarva \<Rightarrow> pyobj \<Rightarrow> string \<Rightarrow> web \<Rightarrow> (error + string option) \<times> web" where
  "retrieve_raw_data self dt ldc w =
     (if ldc \<notin> set (ldcs self) then (Inl AssertionError, w)
      else (case dt of
              OtherObj \<Rightarrow> (Inl TypeError, w)
            | DateObj d \<Rightarrow> fetch_loop self d ldc [2, 1] None w))"

subsection \<open>Series parser\<close>

definition parse_lines :: "string \<Rightarrow> string list list" where
  \<comment> \<open>lines 97 to 99: \<open>i\<close> counts the lines of the text, blank ones too\<close>
  "parse_lines data =
     (let lines = split_on (CHR 0x0A) (replace_char (CHR 0x0D) data)
      in map (\<lambda>(i, line). split_ws line)
           (filter (\<lambda>(i, line). length line > 1 \<and> i > 3) (enumerate 0 lines)))"

definition hour_names :: "string list" where
  "hour_names = map (\<lambda>h. ''H'' @ zfill 2 (str_nat h)) [1..<25]"

definition insert_at :: "nat \<Rightarrow> 'a \<Rightarrow> 'a list \<Rightarrow> 'a list" where
  \<comment> \<open>\<^verbatim>\<open>xs.insert(i, x)\<close>\<close>
  "insert_at i x xs = take i xs @ [x] @ drop i xs"

fun traverse :: "('a \<Rightarrow> error + 'b) \<Rightarrow> 'a list \<Rightarrow> error + 'b list" where
  "traverse f [] = Inr []"
| "traverse f (x # xs) =
     (case f x of
        Inl e \<Rightarrow> Inl e
      | Inr y \<Rightarrow> (case traverse f xs of Inl e \<Rightarrow> Inl e | Inr ys \<Rightarrow> Inr (y # ys)))"

fun astype_float :: "'f lib \<Rightarrow> 'f cell \<Rightarrow> error + 'f cell" where
  "astype_float lib (Str s) =
     (case float_of_str lib s of None \<Rightarrow> Inl (ValueError FloatParse) | Some x \<Rightarrow> Inr (Num x))"
| "astype_float lib Null = Inr Null"
| "astype_float lib (Num x) = Inr (Num x)"
| "astype_float lib (IntVal i) = Inr (Num (float_of_int lib i))"
| "astype_float lib (Dt d) = Inl TypeError"

fun to_datetime_cell :: "'f lib \<Rightarrow> 'f cell \<Rightarrow> error + 'f cell" where
  "to_datetime_cell lib (Str s) =
     (case to_datetime_mdY lib s of None \<Rightarrow> Inl (ValueError DateParse) | Some d \<Rightarrow> Inr (Dt d))"
| "to_datetime_cell lib Null = Inr Null"
| "to_datetime_cell lib (Dt d) = Inr (Dt d)"
| "to_datetime_cell lib (IntVal i) = Inl (ValueError DateParse)"
| "to_datetime_cell lib (Num x) = Inl (ValueError DateParse)"

fun str_strip_slice :: "'f cell \<Rightarrow> error + 'f cell" where
  \<comment> \<open>\<^verbatim>\<open>s.str.strip().str.slice(start=8)\<close> on a column of objects\<close>
  "str_strip_slice (Str s) = Inr (Str (drop 8 (strip s)))"
| "str_strip_slice c = Inr Null"

text \<open>\<^verbatim>\<open>for c, f in dtypes.items(): df[c] = f(df[c])\<close>\<close>

fun convert_cols :: "(string \<times> ('f cell \<Rightarrow> error + 'f cell)) list \<Rightarrow> 'f frame \<Rightarrow> error + 'f frame" where
  "convert_cols [] df = Inr df"
| "convert_cols ((c, f) # cs) df =
     (case getitem df c of
        Inl e \<Rightarrow> Inl e
      | Inr col \<Rightarrow>
          (case traverse f col of
             Inl e \<Rightarrow> Inl e
           | Inr col' \<Rightarrow> convert_cols cs (setitem df c col')))"

text \<open>
  Adding two columns of floats, cell by cell; \<open>Null\<close> is \<^verbatim>\<open>NaN\<close>. A column that
  \<open>astype_float\<close> has converted holds no other kind of cell.
\<close>

fun float_add :: "'f::plus cell \<Rightarrow> 'f cell \<Rightarrow> error + 'f cell" where
  "float_add (Num x) (Num y) = Inr (Num (x + y))"
| "float_add (Num x) Null = Inr Null"
| "float_add Null (Num y) = Inr Null"
| "float_add Null Null = Inr Null"
| "float_add a b = Inl TypeError"

definition iadd_cols :: "'f::plus frame \<Rightarrow> string \<Rightarrow> string \<Rightarrow> error + 'f frame" where
  \<comment> \<open>\<^verbatim>\<open>df[a] += df[b]\<close>\<close>
  "iadd_cols df a b =
     (case getitem df a of
        Inl e \<Rightarrow> Inl e
      | Inr xs \<Rightarrow>
          (case getitem df b of
             Inl e \<Rightarrow> Inl e
           | Inr ys \<Rightarrow>
               (case traverse (\<lambda>(x, y). float_add x y) (zip xs ys) of
                  Inl e \<Rightarrow> Inl e
                | Inr zs \<Rightarrow> Inr (setitem df a zs))))"

definition frame_of_text :: "'f::plus lib \<Rightarrow> string \<Rightarrow> bool \<Rightarrow> error + 'f frame" where
  \<comment> \<open>lines 96 to 140 of \<^verbatim>\<open>get_lp_series\<close>: from the text fetched to the table\<close>
  "frame_of_text lib data agg_dst_hr2 =
     (let parsed = parse_lines data;
          n_lines = length parsed
      in if n_lines < 2 \<and> n_lines = 0 then Inl (ValueError NoValidData)
         else
           let n_cols = length (hd parsed);
               dst = (n_cols = 27)
           in if \<not> dst \<and> n_cols \<noteq> 26 then Inl (ValueError InvalidStructure)
              else
                let hours = (if dst then insert_at 2 ''H02X'' hour_names else hour_names);
                    cols = [''segment'', ''date''] @ hours;
                    dtypes = map (\<lambda>h. (h, astype_float lib)) hours
                               @ [(''date'', to_datetime_cell lib), (''segment'', str_strip_slice)]
                in case DataFrame parsed cols of
                     Inl e \<Rightarrow> Inl e
                   | Inr df0 \<Rightarrow>
                       (case convert_cols dtypes df0 of
                          Inl e \<Rightarrow> Inl e
                        | Inr df \<Rightarrow>
                            if dst \<and> agg_dst_hr2
                            then (case iadd_cols df ''H02'' ''H02X'' of
                                    Inl e \<Rightarrow> Inl e
                                  | Inr df' \<Rightarrow> delitem df' ''H02X'')
                            else Inr df))"

text \<open>
  The result \<open>Inr None\<close> is the bare \<^verbatim>\<open>return\<close> after the warning. When the fetcher
  itself returns \<^verbatim>\<open>None\<close>, \<^verbatim>\<open>data.replace\<close> raises \<^verbatim>\<open>AttributeError\<close>.
\<close>

definition get_lp_series :: "'f::plus lib \<Rightarrow> 'f delmarva \<Rightarrow> pyobj \<Rightarrow> string \<Rightarrow> bool \<Rightarrow> web
    \<Rightarrow> (error + 'f frame option) \<times> web" where
  "get_lp_series lib self target_dt ldc agg_dst_hr2 w =
     (case retrieve_raw_data self target_dt ldc w of
        (Inl (HTTPError s), w') \<Rightarrow> (Inr None, w')
      | (Inl e, w') \<Rightarrow> (Inl e, w')
      | (Inr None, w') \<Rightarrow> (Inl AttributeError, w')
      | (Inr (Some data), w') \<Rightarrow>
          (case frame_of_text lib data agg_dst_hr2 of
             Inl e \<Rightarrow> (Inl e, w')
           | Inr df \<Rightarrow> (Inr (Some df), w')))"

subsection \<open>Range aggregator\<close>

definition first_seen :: "'a list \<Rightarrow> 'a list" where
  \<comment> \<open>the distinct elements, in the order of their first occurrence\<close>
  "first_seen xs = rev (remdups (rev xs))"

definition concat_frames :: "'f frame list \<Rightarrow> 'f frame" where
  \<comment> \<open>the tables one below the other, on the union of their columns, with a new index\<close>
  "concat_frames dfs =
     (let cols = first_seen (concat (map columns dfs));
          rs = concat (map (\<lambda>df. map (\<lambda>r. map (\<lambda>c. case col_pos c (columns df) of
                                                          None \<Rightarrow> Null
                                                        | Some j \<Rightarrow> cell_at r j) cols)
                                    (rows df)) dfs)
      in \<lparr>index = RangeIndex (length rs), columns = cols, rows = rs\<rparr>)"

definition pd_concat :: "'f frame option list \<Rightarrow> error + 'f frame" where
  \<comment> \<open>\<^verbatim>\<open>pd.concat(objs, ignore_index=True)\<close>: \<^verbatim>\<open>None\<close> entries are dropped silently
      unless all of them are \<^verbatim>\<open>None\<close>, and an empty list is refused\<close>
  "pd_concat objs =
     (if objs = [] then Inl (ValueError NoObjects)
      else (case List.map_filter (\<lambda>x. x) objs of
              [] \<Rightarrow> Inl (ValueError AllNone)
            | df # dfs \<Rightarrow> Inr (concat_frames (df # dfs))))"

datatype date_arg = DateStr string | DateVal date

definition as_date :: "'f lib \<Rightarrow> date_arg \<Rightarrow> error + date" where
  "as_date lib a =
     (case a of
        DateVal d \<Rightarrow> Inr d
      | DateStr s \<Rightarrow> (case to_datetime lib s of None \<Rightarrow> Inl (ValueError DateParse) | Some d \<Rightarrow> Inr d))"

text \<open>
  The list comprehension \<^verbatim>\<open>[self.get_lp_series(dt, ldc) for dt in rng for ldc in self.ldcs]\<close>:
  the calls run in order, and the first exception ends the loop.
\<close>

fun series_loop :: "'f::plus lib \<Rightarrow> 'f delmarva \<Rightarrow> (date \<times> string) list \<Rightarrow> web
    \<Rightarrow> (error + 'f frame option list) \<times> web" where
  "series_loop lib self [] w = (Inr [], w)"
| "series_loop lib self ((dt, ldc) # todo) w =
     (case get_lp_series lib self (DateObj dt) ldc True w of
        (Inl e, w') \<Rightarrow> (Inl e, w')
      | (Inr x, w') \<Rightarrow>
          (case series_loop lib self todo w' of
             (Inl e, w'') \<Rightarrow> (Inl e, w'')
           | (Inr xs, w'') \<Rightarrow> (Inr (x # xs), w'')))"

definition get_lp_data :: "'f::plus lib \<Rightarrow> 'f delmarva \<Rightarrow> date_arg \<Rightarrow> date_arg \<Rightarrow> web
    \<Rightarrow> (error + 'f frame) \<times> web" where
  "get_lp_data lib self from_dt to_dt w =
     (case as_date lib from_dt of
        Inl e \<Rightarrow> (Inl e, w)
      | Inr from_date \<Rightarrow>
          (case as_date lib to_dt of
             Inl e \<Rightarrow> (Inl e, w)
           | Inr to_date \<Rightarrow>
               (let rng = date_range lib from_date to_date
                in case series_loop lib self (List.product rng (ldcs self)) w of
                     (Inl e, w') \<Rightarrow> (Inl e, w')
                   | (Inr objs, w') \<Rightarrow> (pd_concat objs, w'))))"

subsection \<open>Table methods used by the exporter\<close>

text \<open>
  \<^verbatim>\<open>df.name\<close>: a column read as an attribute. The result is a series: the index of the
  table, the name and the values of the column.
\<close>

record 'f series =
  s_index :: "'f cell list"
  s_name :: string
  s_values :: "'f cell list"

definition getattr :: "'f frame \<Rightarrow> string \<Rightarrow> error + 'f series" where
  "getattr df c =
     (case col_pos c (columns df) of
        None \<Rightarrow> Inl AttributeError
      | Some j \<Rightarrow> Inr \<lparr>s_index = index df, s_name = c, s_values = map (\<lambda>r. cell_at r j) (rows df)\<rparr>)"

text \<open>
  The order of cells. Python compares strings with strings, numbers with numbers and
  dates with dates; between cells of different kinds it raises \<^verbatim>\<open>TypeError\<close>, which
  \<open>comparable\<close> checks before any comparison is made, so the order across kinds below is
  never used. Missing values come last. A column is taken to hold whole numbers or
  floats, not both.
\<close>

fun kind :: "'f cell \<Rightarrow> nat option" where
  "kind (Str s) = Some 0"
| "kind (IntVal i) = Some 1"
| "kind (Num x) = Some 2"
| "kind (Dt d) = Some 3"
| "kind Null = None"

definition comparable :: "'f cell list \<Rightarrow> bool" where
  "comparable cs = (case List.map_filter kind cs of [] \<Rightarrow> True | k # ks \<Rightarrow> list_all (\<lambda>k'. k' = k) ks)"

fun cell_le :: "'f::linorder cell \<Rightarrow> 'f cell \<Rightarrow> bool" where
  "cell_le a Null = True"
| "cell_le Null b = False"
| "cell_le (Str s) (Str t) = (s \<le> t)"
| "cell_le (IntVal i) (IntVal j) = (i \<le> j)"
| "cell_le (Num x) (Num y) = (x \<le> y)"
| "cell_le (Dt d) (Dt e) = date_le d e"
| "cell_le a b = (the (kind a) \<le> the (kind b))"

text \<open>
  Sorting is by insertion, which keeps rows of equal key in their order. The default
  algorithm of pandas (\<^verbatim>\<open>kind='quicksort'\<close>) does not promise that for every table;
  a property below that relies on the order of rows of equal key says so.
\<close>

fun insort_by :: "('a \<Rightarrow> 'a \<Rightarrow> bool) \<Rightarrow> 'a \<Rightarrow> 'a list \<Rightarrow> 'a list" where
  "insort_by le x [] = [x]"
| "insort_by le x (y # ys) = (if le x y then x # y # ys else y # insort_by le x ys)"

definition sort_by :: "('a \<Rightarrow> 'a \<Rightarrow> bool) \<Rightarrow> 'a list \<Rightarrow> 'a list" where
  "sort_by le xs = foldr (insort_by le) xs []"

definition col_min :: "'f::linorder cell list \<Rightarrow> error + 'f cell" where
  \<comment> \<open>\<^verbatim>\<open>s.min()\<close>: missing values are skipped; \<^verbatim>\<open>NaT\<close> when nothing is left\<close>
  "col_min cs =
     (if \<not> comparable cs then Inl TypeError
      else (case filter (\<lambda>c. c \<noteq> Null) cs of
              [] \<Rightarrow> Inr Null
            | x # xs \<Rightarrow> Inr (foldl (\<lambda>m c. if cell_le c m then c else m) x xs)))"

definition col_max :: "'f::linorder cell list \<Rightarrow> error + 'f cell" where
  "col_max cs =
     (if \<not> comparable cs then Inl TypeError
      else (case filter (\<lambda>c. c \<noteq> Null) cs of
              [] \<Rightarrow> Inr Null
            | x # xs \<Rightarrow> Inr (foldl (\<lambda>m c. if cell_le m c then c else m) x xs)))"

definition set_index :: "string \<Rightarrow> 'f frame \<Rightarrow> error + 'f frame" where
  "set_index c df =
     (case col_pos c (columns df) of
        None \<Rightarrow> Inl (KeyError c)
      | Some j \<Rightarrow>
          Inr \<lparr>index = map (\<lambda>r. cell_at r j) (rows df), columns = drop_nth j (columns df),
               rows = map (drop_nth j) (rows df)\<rparr>)"

text \<open>
  \<^verbatim>\<open>df.join(s, how='right')\<close>: one row for every entry of \<open>s\<close> and every row of \<open>df\<close>
  with the entry's key as its index, in the order of the entries; an entry that no row
  matches gives one row of missing values. The column of \<open>s\<close> is added last.
\<close>

definition join_right :: "'f series \<Rightarrow> 'f frame \<Rightarrow> error + 'f frame" where
  "join_right s df =
     (if s_name s \<in> set (columns df) then Inl (ValueError ColumnsOverlap)
      else
        let left = zip (index df) (rows df);
            joined =
              concat (map (\<lambda>(k, v).
                             case filter (\<lambda>(i, r). i = k) left of
                               [] \<Rightarrow> [(k, replicate (length (columns df)) Null @ [v])]
                             | m # ms \<Rightarrow> map (\<lambda>(i, r). (k, r @ [v])) (m # ms))
                        (zip (s_index s) (s_values s)))
        in Inr \<lparr>index = map fst joined, columns = columns df @ [s_name s], rows = map snd joined\<rparr>)"

definition reset_index_drop :: "'f frame \<Rightarrow> error + 'f frame" where
  \<comment> \<open>\<^verbatim>\<open>df.reset_index(drop=True)\<close>\<close>
  "reset_index_drop df = Inr (df\<lparr>index := RangeIndex (length (rows df))\<rparr>)"

definition assign :: "string \<Rightarrow> 'f cell \<Rightarrow> 'f frame \<Rightarrow> error + 'f frame" where
  \<comment> \<open>\<^verbatim>\<open>df.assign(c=v)\<close> for a scalar \<open>v\<close>\<close>
  "assign c v df = Inr (setitem df c (replicate (length (rows df)) v))"

definition sort_values :: "string \<Rightarrow> 'f::linorder frame \<Rightarrow> error + 'f frame" where
  "sort_values c df =
     (case col_pos c (columns df) of
        None \<Rightarrow> Inl (KeyError c)
      | Some j \<Rightarrow>
          if \<not> comparable (map (\<lambda>r. cell_at r j) (rows df)) then Inl TypeError
          else
            let sorted_rows =
                  sort_by (\<lambda>(i, r) (i', r'). cell_le (cell_at r j) (cell_at r' j)) (zip (index df) (rows df))
            in Inr (df\<lparr>index := map fst sorted_rows, rows := map snd sorted_rows\<rparr>))"

definition sort_index :: "'f::linorder frame \<Rightarrow> error + 'f frame" where
  "sort_index df =
     (if \<not> comparable (index df) then Inl TypeError
      else
        let sorted_rows = sort_by (\<lambda>(i, r) (i', r'). cell_le i i') (zip (index df) (rows df))
        in Inr (df\<lparr>index := map fst sorted_rows, rows := map snd sorted_rows\<rparr>))"

text \<open>
  \<^verbatim>\<open>df.to_csv(p, sep='\t', header=False, date_format='%m/%d/%Y', float_format='%.3f')\<close>:
  one line for each row, the index first, a missing value as the empty text. The
  quoting of a text that holds a tab or a quote is not modelled.
\<close>

fun str_int :: "int \<Rightarrow> string" where
  "str_int i = (if i < 0 then ''-'' @ str_nat (nat (- i)) else str_nat (nat i))"

fun render :: "'f lib \<Rightarrow> 'f cell \<Rightarrow> string" where
  "render lib (Str s) = s"
| "render lib (IntVal i) = str_int i"
| "render lib (Dt d) = strftime_mdY d"
| "render lib (Num x) = float_format lib x"
| "render lib Null = []"

fun join_tab :: "string list \<Rightarrow> string" where
  "join_tab [] = []"
| "join_tab [s] = s"
| "join_tab (s # t # ss) = s @ [CHR 0x09] @ join_tab (t # ss)"

definition to_csv_lines :: "'f lib \<Rightarrow> 'f frame \<Rightarrow> string list" where
  "to_csv_lines lib df = map (\<lambda>(i, r). join_tab (map (render lib) (i # r))) (zip (index df) (rows df))"

definition write_file :: "string \<Rightarrow> string list \<Rightarrow> filesystem \<Rightarrow> filesystem" where
  "write_file p content fs = fs\<lparr>files := (files fs)(p \<mapsto> content)\<rparr>"

subsection \<open>Exporter\<close>

text \<open>
  The caller's table is an object that the caller keeps: the exporter receives a
  reference into a store of tables. A method call reads the object it is called on and
  puts its result into the store as a new object (none of the methods is called with
  \<^verbatim>\<open>inplace=True\<close>).
\<close>

record 'f world =
  fs :: filesystem
  heap :: "'f frame list"

definition call :: "('f frame \<Rightarrow> error + 'f frame) \<Rightarrow> nat \<Rightarrow> 'f frame list \<Rightarrow> (error + nat) \<times> 'f frame list" where
  "call method r h =
     (case method (h ! r) of
        Inl e \<Rightarrow> (Inl e, h)
      | Inr df \<Rightarrow> (Inr (length h), h @ [df]))"

definition and_then :: "(error + 'a) \<times> 's \<Rightarrow> ('a \<Rightarrow> 's \<Rightarrow> (error + 'b) \<times> 's) \<Rightarrow> (error + 'b) \<times> 's" where
  "and_then m f = (case m of (Inl e, s) \<Rightarrow> (Inl e, s) | (Inr a, s) \<Rightarrow> f a s)"

definition backslash :: string where
  "backslash = [CHR 0x5C]"

definition format_Ymd :: "'f cell \<Rightarrow> error + string" where
  \<comment> \<open>\<^verbatim>\<open>'Conectiv_{:%Y%m%d}.txt'.format(x)\<close>: the format fits a date only, and not \<^verbatim>\<open>NaT\<close>\<close>
  "format_Ymd x =
     (case x of
        Dt d \<Rightarrow> Inr (''Conectiv_'' @ strftime_Ymd d @ ''.txt'')
      | _ \<Rightarrow> Inl (ValueError BadFormat))"

definition is_date :: "'f cell \<Rightarrow> bool" where
  "is_date x = (case x of Dt d \<Rightarrow> True | _ \<Rightarrow> False)"

definition export_steps :: "'f::linorder delmarva \<Rightarrow> nat \<Rightarrow> 'f frame list \<Rightarrow> (error + nat) \<times> 'f frame list" where
  \<comment> \<open>lines 181 to 188: the chain of method calls, up to the table that is written\<close>
  "export_steps self lp_data h =
     and_then (call (set_index ''segment'') lp_data h) (\<lambda>a h.
     and_then (case getattr (codes self) ''C_LOAD_PROFILE'' of
                 Inl e \<Rightarrow> (Inl e, h)
               | Inr s \<Rightarrow> call (join_right s) a h) (\<lambda>b h.
     and_then (call reset_index_drop b h) (\<lambda>c h.
     and_then (call (set_index ''C_LOAD_PROFILE'') c h) (\<lambda>d h.
     and_then (call (assign ''EMPTY'' Null) d h) (\<lambda>e h.
     and_then (call (sort_values ''date'') e h) (\<lambda>f h.
     call sort_index f h))))))"

definition export_for_oracle :: "'f::linorder lib \<Rightarrow> 'f delmarva \<Rightarrow> nat \<Rightarrow> string option \<Rightarrow> string option
    \<Rightarrow> 'f world \<Rightarrow> error option \<times> 'f world" where
  "export_for_oracle lib self lp_data path_arg file_name_arg w =
     (let path = py_or path_arg (dest_path self)
      in case getattr (heap w ! lp_data) ''date'' of
           Inl e \<Rightarrow> (Some e, w)
         | Inr dates \<Rightarrow>
         (case col_min (s_values dates) of
           Inl e \<Rightarrow> (Some e, w)
         | Inr from_date \<Rightarrow>
         (case col_max (s_values dates) of
           Inl e \<Rightarrow> (Some e, w)
         | Inr to_date \<Rightarrow>
         (case (if file_name_arg = None \<or> file_name_arg = Some [] then format_Ymd from_date
                else Inr (the file_name_arg)) of
           Inl e \<Rightarrow> (Some e, w)
         | Inr file_name \<Rightarrow>
             if isdir (fs w) (path @ ''Archive'')
                \<and> exists_path (fs w) (path @ ''Archive'' @ backslash @ file_name)
             then (Some FileExistsError, w)
             else
               (case export_steps self lp_data (heap w) of
                  (Inl e, h) \<Rightarrow> (Some e, w\<lparr>heap := h\<rparr>)
                | (Inr out, h) \<Rightarrow>
                    (let w' = \<lparr>fs = write_file (path @ file_name) (to_csv_lines lib (h ! out)) (fs w),
                               heap = h\<rparr>
                     in if is_date from_date \<and> is_date to_date then (None, w')
                        else (Some (ValueError BadFormat), w')))))))"


subsection \<open>The table that the exporter writes\<close>

text \<open>
  The chain of method calls of \<open>export_steps\<close> as one function of the value of the
  caller's table (lemma \<open>export_steps_value\<close> below relates the two).
\<close>

definition or_else :: "error + 'a \<Rightarrow> ('a \<Rightarrow> error + 'b) \<Rightarrow> error + 'b" where
  "or_else m f = (case m of Inl e \<Rightarrow> Inl e | Inr a \<Rightarrow> f a)"

definition export_table :: "'f::linorder delmarva \<Rightarrow> 'f frame \<Rightarrow> error + 'f frame" where
  "export_table self lp =
     or_else (set_index ''segment'' lp) (\<lambda>a.
     or_else (getattr (codes self) ''C_LOAD_PROFILE'') (\<lambda>s.
     or_else (join_right s a) (\<lambda>b.
     or_else (reset_index_drop b) (\<lambda>c.
     or_else (set_index ''C_LOAD_PROFILE'' c) (\<lambda>d.
     or_else (assign ''EMPTY'' Null d) (\<lambda>e.
     or_else (sort_values ''date'' e) sort_index))))))"




subsection \<open>Well-formed tables and valid inputs\<close>

definition wf_frame :: "'f frame \<Rightarrow> bool" where
  \<comment> \<open>every row has one cell for each column\<close>
  "wf_frame df = (\<forall>r \<in> set (rows df). length r = length (columns df))"

definition valid_dst_rows :: "'f lib \<Rightarrow> string list list \<Rightarrow> bool" where
  \<comment> \<open>the tokenised lines of a valid daylight-saving input: at least one line, each of
      27 tokens, the second a date and the last 25 floats\<close>
  "valid_dst_rows lib parsed =
     (parsed \<noteq> [] \<and>
      (\<forall>r \<in> set parsed. length r = 27 \<and> to_datetime_mdY lib (r ! 1) \<noteq> None
          \<and> (\<forall>t \<in> set (drop 2 r). float_of_str lib t \<noteq> None)))"


subsection \<open>Concrete inputs\<close>

text \<open>
  An instance of \<open>lib\<close> for the examples, with whole numbers for the floats. It agrees
  with the library on the texts used below: a string of decimal digits is a float, a
  date is written month/day/year in digits, and a range of days runs through the
  calendar from its first to its last day.
\<close>

definition digits_value :: "string \<Rightarrow> nat option" where
  "digits_value s =
     (if s \<noteq> [] \<and> list_all (\<lambda>c. CHR ''0'' \<le> c \<and> c \<le> CHR ''9'') s
      then Some (foldl (\<lambda>n c. 10 * n + (of_char c - 48)) 0 s) else None)"

definition is_leap :: "nat \<Rightarrow> bool" where
  "is_leap y = (y mod 4 = 0 \<and> (y mod 100 \<noteq> 0 \<or> y mod 400 = 0))"

definition days_in_month :: "nat \<Rightarrow> nat \<Rightarrow> nat" where
  "days_in_month y m =
     (if m = 2 then (if is_leap y then 29 else 28)
      else if m = 4 \<or> m = 6 \<or> m = 9 \<or> m = 11 then 30 else 31)"

definition mdY_value :: "string \<Rightarrow> date option" where
  "mdY_value s =
     (case map digits_value (split_on (CHR ''/'') s) of
        [Some m, Some d, Some y] \<Rightarrow>
          (if 1 \<le> m \<and> m \<le> 12 \<and> 1 \<le> d \<and> d \<le> days_in_month y m then Some (Date y m d) else None)
      | _ \<Rightarrow> None)"

definition next_day :: "date \<Rightarrow> date" where
  "next_day dt =
     (if day dt < days_in_month (year dt) (month dt) then Date (year dt) (month dt) (day dt + 1)
      else if month dt < 12 then Date (year dt) (month dt + 1) 1
      else Date (year dt + 1) 1 1)"

fun days_from :: "nat \<Rightarrow> date \<Rightarrow> date \<Rightarrow> date list" where
  "days_from 0 a b = []"
| "days_from (Suc n) a b = (if date_le a b then a # days_from n (next_day a) b else [])"

definition days_between :: "date \<Rightarrow> date \<Rightarrow> date list" where
  "days_between a b = days_from (366 * (year b + 1 - year a)) a b"

definition simple_read_csv :: "string list \<Rightarrow> string \<Rightarrow> error + int frame" where
  \<comment> \<open>a file of comma-separated texts under a header line, none of them a number\<close>
  "simple_read_csv content index_col =
     (case content of
        [] \<Rightarrow> Inl (ValueError NoObjects)
      | header # body \<Rightarrow>
          set_index index_col
            \<lparr>index = RangeIndex (length body), columns = split_on (CHR '','') header,
             rows = map (\<lambda>l. map Str (split_on (CHR '','') l)) body\<rparr>)"

definition example_lib :: "int lib" where
  "example_lib =
     \<lparr>float_of_str = (\<lambda>s. map_option int (digits_value s)),
      float_of_int = (\<lambda>i. i),
      to_datetime_mdY = mdY_value,
      to_datetime = mdY_value,
      date_range = days_between,
      float_format = (\<lambda>i. str_int i @ ''.000''),
      read_csv = simple_read_csv\<rparr>"

definition work_dir :: string where
  "work_dir = ''C:'' @ backslash @ ''work''"

definition example_fs :: filesystem where
  "example_fs =
     \<lparr>getcwd = work_dir, sep = backslash,
      dirs = {work_dir, work_dir @ backslash @ ''Archive''},
      files = [work_dir @ backslash @ ''delmarva_lp_code_mapping.csv''
                 \<mapsto> [''T_DMS_LOAD_PROFILE,C_LOAD_PROFILE'', ''RES,A'', ''GS,B'', ''OL,C''],
               work_dir @ backslash @ ''Archive'' @ backslash @ ''Conectiv_20170101.txt''
                 \<mapsto> [''archived'']]\<rparr>"

definition example_codes :: "int frame" where
  "example_codes =
     \<lparr>index = [Str ''RES'', Str ''GS'', Str ''OL''], columns = [''C_LOAD_PROFILE''],
      rows = [[Str ''A''], [Str ''B''], [Str ''C'']]\<rparr>"

definition example_self :: "int delmarva" where
  \<comment> \<open>what \<open>init example_lib example_fs None None\<close> returns\<close>
  "example_self =
     \<lparr>dest_path = work_dir,
      ldc_state = [(''CNM'', ''MD''), (''CND'', ''DE''), (''CNV'', ''VA'')],
      codes_path = work_dir, codes_file_name = ''delmarva_lp_code_mapping.csv'',
      codes = example_codes, ldcs = [''CND'', ''CNM'']\<rparr>"

definition example_lp :: "int frame" where
  "example_lp =
     \<lparr>index = RangeIndex 3, columns = [''segment'', ''date'', ''H01''],
      rows = [[Str ''RES'', Dt (Date 2017 1 2), Num 5],
              [Str ''GS'', Dt (Date 2017 1 1), Num 7],
              [Str ''XX'', Dt (Date 2017 1 1), Num 9]]\<rparr>"

definition example_world :: "int world" where
  "example_world = \<lparr>fs = example_fs, heap = [example_lp]\<rparr>"

definition web_answering :: "nat \<Rightarrow> string \<Rightarrow> web" where
  \<comment> \<open>a server that gives every request the same status and text\<close>
  "web_answering st txt = \<lparr>respond = (\<lambda>url. Inr \<lparr>status_code = st, body_text = txt\<rparr>), requested = []\<rparr>"


definition example_row26 :: string where
  "example_row26 = ''DPLMD000RES 01/05/2017 101 102 103 104 105 106 107 108 109 110 111 112 113 114 115 116 117 118 119 120 121 122 123 124''"

definition example_blank_header :: string where
  \<comment> \<open>four empty lines, then one line of data\<close>
  "example_blank_header = ''\<newline>\<newline>\<newline>\<newline>'' @ example_row26"


definition example_headers_only :: string where
  \<comment> \<open>four header lines and no data\<close>
  "example_headers_only = ''Delmarva Power\<newline>Load Profiles\<newline>Segment Date Hours\<newline>----\<newline>''"

definition nonempty_lines :: "string \<Rightarrow> string list" where
  \<comment> \<open>the non-empty lines of a text, as the claim on short texts counts them\<close>
  "nonempty_lines data = filter (\<lambda>l. l \<noteq> []) (split_on (CHR 0x0A) (replace_char (CHR 0x0D) data))"


definition example_dst_row1 :: string where
  "example_dst_row1 = ''DPLMD000RES 11/05/2017 101 102 130 104 105 106 107 108 109 110 111 112 113 114 115 116 117 118 119 120 121 122 123 124 125''"

definition example_dst_row2 :: string where
  "example_dst_row2 = ''DPLMD000GS 11/05/2017 201 202 230 204 205 206 207 208 209 210 211 212 213 214 215 216 217 218 219 220 221 222 223 224 225''"

definition example_dst_text :: string where
  \<comment> \<open>a daylight-saving day: four header lines and two lines of 27 tokens\<close>
  "example_dst_text = example_headers_only @ example_dst_row1 @ [CHR 0x0D, CHR 0x0A]
                        @ example_dst_row2 @ [CHR 0x0D, CHR 0x0A]"


definition example_out :: "int frame" where
  \<comment> \<open>the table written for \<open>example_lp\<close> and \<open>example_codes\<close>\<close>
  "example_out =
     \<lparr>index = [Str ''A'', Str ''B'', Str ''C''], columns = [''date'', ''H01'', ''EMPTY''],
      rows = [[Dt (Date 2017 1 2), Num 5, Null],
              [Dt (Date 2017 1 1), Num 7, Null],
              [Null, Null, Null]]\<rparr>"


section \<open>Properties\<close>

subsection \<open>The constructor and the examples\<close>

lemma init_ldcs: "init lib fsys a b = Inr self \<Longrightarrow> ldcs self = [''CND'', ''CNM'']"
  by (auto simp: init_def Let_def split: sum.splits)

lemma digit_chars:
  "digit_char 0 = CHR ''0''" "digit_char 1 = CHR ''1''" "digit_char 2 = CHR ''2''"
  "digit_char 3 = CHR ''3''" "digit_char 4 = CHR ''4''" "digit_char 5 = CHR ''5''"
  "digit_char 6 = CHR ''6''" "digit_char 7 = CHR ''7''" "digit_char 8 = CHR ''8''"
  "digit_char 9 = CHR ''9''" "digit_char (Suc 0) = CHR ''1''"
  by code_simp+

lemma str_nat_numeral [simp]:
  "str_nat (numeral k) = (if (numeral k :: nat) < 10 then [digit_char (numeral k)]
      else str_nat (numeral k div 10) @ [digit_char (numeral k mod 10)])"
  by (rule str_nat.simps)

lemma str_nat_0 [simp]: "str_nat 0 = ''0''"
  by (simp add: str_nat.simps digit_chars)

lemma str_nat_1 [simp]: "str_nat 1 = ''1''" "str_nat (Suc 0) = ''1''"
  using digit_chars(2) by (simp_all add: str_nat.simps[of 1] str_nat.simps[of "Suc 0"])

lemma state_case:
  "lower ''MD'' = ''md''" "lower ''DE'' = ''de''" "lower ''VA'' = ''va''"
  "upper ''MD'' = ''MD''" "upper ''DE'' = ''DE''" "upper ''VA'' = ''VA''"
  by code_simp+

lemmas string_defs = zfill_def strftime_Ymd_def strftime_mdY_def delmarva_url_def backslash_def
  work_dir_def digit_chars state_case

lemma init_example: "init example_lib example_fs None None = Inr example_self"
  by (simp add: init_def example_lib_def example_fs_def example_self_def py_or_def exists_path_def
      simple_read_csv_def set_index_def work_dir_def backslash_def RangeIndex_def drop_nth_def
      cell_at_def example_codes_def)

subsection \<open>Raw fetcher\<close>

text \<open>
  Claim C7. An object made by the constructor supports the LDCs \<^verbatim>\<open>CND\<close> and \<^verbatim>\<open>CNM\<close>.
  For any other LDC (\<^verbatim>\<open>CNV\<close> too, which has a state but is not supported) and any
  \<^verbatim>\<open>dt\<close> argument, the fetcher fails on its assertion and leaves the network as it
  was: no request has been issued.
\<close>

theorem unsupported_ldc_fails_before_any_request:
  assumes "init lib fsys codes_path_arg dest_path_arg = Inr self"
    and "ldc \<noteq> ''CND''" and "ldc \<noteq> ''CNM''"
  shows "retrieve_raw_data self dt ldc w = (Inl AssertionError, w)"
  using assms(2,3) init_ldcs[OF assms(1)] by (simp add: retrieve_raw_data_def)

theorem unsupported_ldc_witness:
  "init example_lib example_fs None None = Inr example_self
   \<and> ''CNV'' \<noteq> ''CND'' \<and> ''CNV'' \<noteq> ''CNM''
   \<and> retrieve_raw_data example_self OtherObj ''CNV'' (web_answering 200 ''x'')
       = (Inl AssertionError, web_answering 200 ''x'')"
proof -
  have i: "init example_lib example_fs None None = Inr example_self" by (rule init_example)
  have a: "''CNV'' \<noteq> ''CND''" and b: "''CNV'' \<noteq> ''CNM''" by simp_all
  show ?thesis
    using unsupported_ldc_fails_before_any_request[OF i a b, of OtherObj "web_answering 200 ''x''"] i
    by simp
qed

text \<open>
  Claim C5. A server that answers both requests with status 204 (neither 200 nor an
  error status): the loop ends, \<^verbatim>\<open>raise_for_status\<close> raises nothing, and the fetcher
  returns \<^verbatim>\<open>None\<close> after its two requests instead of failing. The parser then fails on
  \<^verbatim>\<open>data.replace\<close>.
\<close>

theorem fetch_status_204_returns_None:
  "fst (retrieve_raw_data example_self (DateObj (Date 2017 1 5)) ''CND'' (web_answering 204 [])) = Inr None
   \<and> requested (snd (retrieve_raw_data example_self (DateObj (Date 2017 1 5)) ''CND'' (web_answering 204 [])))
       = [''http://www2.conectiv.com/cpd/tps/archives/de/2017/01/20170105DEA2.txt'',
          ''http://www2.conectiv.com/cpd/tps/archives/de/2017/01/20170105DEA1.txt'']
   \<and> fst (get_lp_series example_lib example_self (DateObj (Date 2017 1 5)) ''CND'' True (web_answering 204 []))
       = Inl AttributeError"
  by (simp add: get_lp_series_def retrieve_raw_data_def example_self_def web_answering_def
      requests_get_def raise_for_status_def string_defs)


subsection \<open>Series parser\<close>

lemma fetch_example_200:
  "fst (retrieve_raw_data example_self (DateObj d) ''CND'' (web_answering 200 txt)) = Inr (Some txt)"
  by (simp add: retrieve_raw_data_def example_self_def web_answering_def requests_get_def)

lemma get_lp_series_fetched:
  "fst (retrieve_raw_data self dt ldc w) = Inr (Some data) \<Longrightarrow>
   fst (get_lp_series lib self dt ldc agg w) =
     (case frame_of_text lib data agg of Inl e \<Rightarrow> Inl e | Inr df \<Rightarrow> Inr (Some df))"
  by (cases "retrieve_raw_data self dt ldc w") (simp add: get_lp_series_def split: sum.splits)

lemma parse_lines_empty:
  assumes "\<forall>l \<in> set (drop 4 (split_on (CHR 0x0A) (replace_char (CHR 0x0D) data))). length l \<le> 1"
  shows "parse_lines data = []"
proof -
  let ?ls = "split_on (CHR 0x0A) (replace_char (CHR 0x0D) data)"
  have "\<not> (length l > 1 \<and> i > 3)" if "(i, l) \<in> set (enumerate 0 ?ls)" for i l
  proof
    assume a: "length l > 1 \<and> i > 3"
    from that have i: "i < length ?ls" and l: "l = ?ls ! i"
      by (auto simp: in_set_enumerate_eq)
    from a i have "?ls ! i = drop 4 ?ls ! (i - 4)" by simp
    moreover from a i have "i - 4 < length (drop 4 ?ls)" by (simp, arith)
    ultimately have "l \<in> set (drop 4 ?ls)" using l nth_mem by metis
    with assms a show False by auto
  qed
  then have "filter (\<lambda>(i, line). length line > 1 \<and> i > 3) (enumerate 0 ?ls) = []"
    by (auto simp: filter_empty_conv)
  then show ?thesis by (simp add: parse_lines_def)
qed

text \<open>
  Claim C6, as amended. The header skip is by position: the first four lines of the text
  are dropped whether they are blank or not, and a later line counts as data when it is
  longer than one character. When no line from the fifth on is that long, the call fails
  with the \<^verbatim>\<open>ValueError\<close> "Did not receive any valid data".
\<close>

theorem no_line_after_header_fails:
  assumes "fst (retrieve_raw_data self dt ldc w) = Inr (Some data)"
    and "\<forall>l \<in> set (drop 4 (split_on (CHR 0x0A) (replace_char (CHR 0x0D) data))). length l \<le> 1"
  shows "fst (get_lp_series lib self dt ldc agg_dst_hr2 w) = Inl (ValueError NoValidData)"
  using get_lp_series_fetched[OF assms(1)] parse_lines_empty[OF assms(2)]
  by (simp add: frame_of_text_def)

theorem no_line_after_header_witness:
  "fst (retrieve_raw_data example_self (DateObj (Date 2017 1 5)) ''CND'' (web_answering 200 example_headers_only))
     = Inr (Some example_headers_only)
   \<and> list_all (\<lambda>l. length l \<le> 1) (drop 4 (split_on (CHR 0x0A) (replace_char (CHR 0x0D) example_headers_only)))
   \<and> fst (get_lp_series example_lib example_self (DateObj (Date 2017 1 5)) ''CND'' True
            (web_answering 200 example_headers_only)) = Inl (ValueError NoValidData)"
proof -
  have f: "fst (retrieve_raw_data example_self (DateObj (Date 2017 1 5)) ''CND'' (web_answering 200 example_headers_only))
     = Inr (Some example_headers_only)" by (rule fetch_example_200)
  have s: "drop 4 (split_on (CHR 0x0A) (replace_char (CHR 0x0D) example_headers_only)) = [[]]"
    by (simp add: example_headers_only_def replace_char_def)
  have h: "\<forall>l \<in> set (drop 4 (split_on (CHR 0x0A) (replace_char (CHR 0x0D) example_headers_only))). length l \<le> 1"
    by (simp add: s)
  show ?thesis
    using no_line_after_header_fails[OF f h, of example_lib True] f s by simp
qed

lemma isspace_simps [simp]: "isspace (CHR '' '')"
  by (simp_all add: isspace_def)

lemma split_row:
  "split_ws example_row26 =
    [''DPLMD000RES'', ''01/05/2017'', ''101'', ''102'', ''103'', ''104'', ''105'', ''106'',
     ''107'', ''108'', ''109'', ''110'', ''111'', ''112'', ''113'', ''114'', ''115'', ''116'',
     ''117'', ''118'', ''119'', ''120'', ''121'', ''122'', ''123'', ''124'']"
  by (simp add: split_ws_def example_row26_def isspace_def)

lemma parse_example: "parse_lines example_blank_header = [split_ws example_row26]"
  by (simp add: parse_lines_def example_blank_header_def example_row26_def replace_char_def enumerate_eq_zip)

lemma hour_names_eq:
  "hour_names = [''H01'', ''H02'', ''H03'', ''H04'', ''H05'', ''H06'', ''H07'', ''H08'',
     ''H09'', ''H10'', ''H11'', ''H12'', ''H13'', ''H14'', ''H15'', ''H16'', ''H17'', ''H18'',
     ''H19'', ''H20'', ''H21'', ''H22'', ''H23'', ''H24'']"
  by code_simp

lemmas parse_defs = digits_value_def less_eq_char_def mdY_value_def days_in_month_def strip_def
  isspace_def

lemma frame_example:
  "frame_of_text example_lib example_blank_header True =
     Inr \<lparr>index = [IntVal 0],
          columns = [''segment'', ''date'', ''H01'', ''H02'', ''H03'', ''H04'', ''H05'', ''H06'', ''H07'',
                     ''H08'', ''H09'', ''H10'', ''H11'', ''H12'', ''H13'', ''H14'', ''H15'', ''H16'',
                     ''H17'', ''H18'', ''H19'', ''H20'', ''H21'', ''H22'', ''H23'', ''H24''],
          rows = [[Str ''RES'', Dt (Date 2017 1 5),
                   Num 101, Num 102, Num 103, Num 104, Num 105, Num 106, Num 107, Num 108,
                   Num 109, Num 110, Num 111, Num 112, Num 113, Num 114, Num 115, Num 116,
                   Num 117, Num 118, Num 119, Num 120, Num 121, Num 122, Num 123, Num 124]]\<rparr>"
  by (simp add: frame_of_text_def parse_example split_row hour_names_eq DataFrame_def RangeIndex_def
     getitem_def setitem_def cell_at_def example_lib_def parse_defs)

text \<open>
  Claim C6 as stated fails: a text of four empty lines and one line of data has a single
  non-empty line, fewer than five, and it is parsed into a table of one row.
\<close>

theorem short_text_counterexample:
  "length (nonempty_lines example_blank_header) = 1
   \<and> fst (get_lp_series example_lib example_self (DateObj (Date 2017 1 5)) ''CND'' True
            (web_answering 200 example_blank_header)) =
     Inr (Some \<lparr>index = [IntVal 0],
          columns = [''segment'', ''date'', ''H01'', ''H02'', ''H03'', ''H04'', ''H05'', ''H06'', ''H07'',
                     ''H08'', ''H09'', ''H10'', ''H11'', ''H12'', ''H13'', ''H14'', ''H15'', ''H16'',
                     ''H17'', ''H18'', ''H19'', ''H20'', ''H21'', ''H22'', ''H23'', ''H24''],
          rows = [[Str ''RES'', Dt (Date 2017 1 5),
                   Num 101, Num 102, Num 103, Num 104, Num 105, Num 106, Num 107, Num 108,
                   Num 109, Num 110, Num 111, Num 112, Num 113, Num 114, Num 115, Num 116,
                   Num 117, Num 118, Num 119, Num 120, Num 121, Num 122, Num 123, Num 124]]\<rparr>)"
proof -
  have n: "length (nonempty_lines example_blank_header) = 1"
    by (simp add: nonempty_lines_def example_blank_header_def example_row26_def replace_char_def)
  show ?thesis
    using n by (simp add: get_lp_series_fetched[OF fetch_example_200] frame_example)
qed

subsection \<open>Columns of a table\<close>

lemma col_pos_Some: "col_pos c cols = Some j \<Longrightarrow> j < length cols \<and> cols ! j = c"
  by (induction cols arbitrary: j) (auto split: if_splits)

lemma col_pos_None: "col_pos c cols = None \<longleftrightarrow> c \<notin> set cols"
  by (induction cols) auto

lemma col_pos_inj: "col_pos c cols = Some j \<Longrightarrow> col_pos c' cols = Some j \<Longrightarrow> c = c'"
  using col_pos_Some by metis

lemma col_pos_append:
  "c \<notin> set xs \<Longrightarrow> col_pos c (xs @ ys) = map_option (\<lambda>j. length xs + j) (col_pos c ys)"
  by (induction xs; cases "col_pos c ys"; auto)

lemma traverse_length: "traverse f xs = Inr ys \<Longrightarrow> length ys = length xs"
  by (induction xs arbitrary: ys) (auto split: sum.splits)

lemma traverse_ok: "\<forall>x \<in> set xs. \<exists>y. f x = Inr y \<Longrightarrow> traverse f xs = Inr (map (\<lambda>x. projr (f x)) xs)"
  by (induction xs) auto

lemma getitem_setitem:
  assumes "wf_frame df" and "col_pos c (columns df) = Some j" and "length vs = length (rows df)"
  shows "getitem (setitem df c vs) c' = (if c' = c then Inr vs else getitem df c')"
proof -
  have j: "j < length (columns df)" using col_pos_Some[OF assms(2)] by simp
  have rows: "rows (setitem df c vs) = map2 (\<lambda>r v. r[j := v]) (rows df) vs"
    and cols: "columns (setitem df c vs) = columns df"
    using assms(2) by (simp_all add: setitem_def)
  show ?thesis
  proof (cases "c' = c")
    case True
    have "map (\<lambda>r. cell_at r j) (map2 (\<lambda>r v. r[j := v]) (rows df) vs) = vs"
    proof (rule nth_equalityI)
      show "length (map (\<lambda>r. cell_at r j) (map2 (\<lambda>r v. r[j := v]) (rows df) vs)) = length vs"
        using assms(3) by simp
    next
      fix i assume "i < length (map (\<lambda>r. cell_at r j) (map2 (\<lambda>r v. r[j := v]) (rows df) vs))"
      then have i: "i < length (rows df)" "i < length vs" using assms(3) by simp_all
      then have "length (rows df ! i) = length (columns df)"
        using assms(1) by (simp add: wf_frame_def)
      with i j show "map (\<lambda>r. cell_at r j) (map2 (\<lambda>r v. r[j := v]) (rows df) vs) ! i = vs ! i"
        by (simp add: cell_at_def)
    qed
    with True assms(2) rows cols show ?thesis by (simp add: getitem_def)
  next
    case False
    show ?thesis
    proof (cases "col_pos c' (columns df)")
      case None
      with False cols show ?thesis by (simp add: getitem_def)
    next
      case (Some j')
      have ne: "j' \<noteq> j" using col_pos_inj False Some assms(2) by metis
      have "map (\<lambda>r. cell_at r j') (map2 (\<lambda>r v. r[j := v]) (rows df) vs) = map (\<lambda>r. cell_at r j') (rows df)"
      proof (rule nth_equalityI)
        show "length (map (\<lambda>r. cell_at r j') (map2 (\<lambda>r v. r[j := v]) (rows df) vs))
                = length (map (\<lambda>r. cell_at r j') (rows df))"
          using assms(3) by simp
      next
        fix i assume "i < length (map (\<lambda>r. cell_at r j') (map2 (\<lambda>r v. r[j := v]) (rows df) vs))"
        then have i: "i < length (rows df)" "i < length vs" using assms(3) by simp_all
        with ne show "map (\<lambda>r. cell_at r j') (map2 (\<lambda>r v. r[j := v]) (rows df) vs) ! i
                        = map (\<lambda>r. cell_at r j') (rows df) ! i"
          by (simp add: cell_at_def)
      qed
      with False Some rows cols show ?thesis by (simp add: getitem_def)
    qed
  qed
qed

lemma setitem_keeps:
  assumes "wf_frame df" and "col_pos c (columns df) = Some j" and "length vs = length (rows df)"
  shows "wf_frame (setitem df c vs)" and "columns (setitem df c vs) = columns df"
    and "length (rows (setitem df c vs)) = length (rows df)" and "index (setitem df c vs) = index df"
  using assms by (auto simp: setitem_def wf_frame_def set_zip)

lemma getitem_length: "getitem df c = Inr xs \<Longrightarrow> length xs = length (rows df)"
  by (auto simp: getitem_def split: option.splits)

lemma convert_cols_ok:
  assumes "wf_frame df" and "distinct (map fst cs)"
    and "\<forall>(c, f) \<in> set cs. \<exists>xs. getitem df c = Inr xs \<and> (\<forall>x \<in> set xs. \<exists>y. f x = Inr y)"
  shows "\<exists>df'. convert_cols cs df = Inr df' \<and> wf_frame df' \<and> columns df' = columns df
            \<and> length (rows df') = length (rows df) \<and> index df' = index df
            \<and> (\<forall>(c, f) \<in> set cs. \<forall>xs. getitem df c = Inr xs \<longrightarrow> getitem df' c = Inr (map (\<lambda>x. projr (f x)) xs))
            \<and> (\<forall>c. c \<notin> fst ` set cs \<longrightarrow> getitem df' c = getitem df c)"
  using assms
proof (induction cs arbitrary: df)
  case Nil
  then show ?case by simp
next
  case (Cons p cs)
  obtain c f where p: "p = (c, f)" by (cases p)
  from Cons.prems(3) p obtain xs where xs: "getitem df c = Inr xs" and ok: "\<forall>x \<in> set xs. \<exists>y. f x = Inr y"
    by auto
  obtain j where j: "col_pos c (columns df) = Some j"
    using xs by (auto simp: getitem_def split: option.splits)
  let ?ys = "map (\<lambda>x. projr (f x)) xs"
  let ?df1 = "setitem df c ?ys"
  have len: "length ?ys = length (rows df)" using getitem_length[OF xs] by simp
  note keep = setitem_keeps[OF Cons.prems(1) j len]
  have get1: "getitem ?df1 c' = (if c' = c then Inr ?ys else getitem df c')" for c'
    by (rule getitem_setitem[OF Cons.prems(1) j len])
  have notin: "c \<notin> fst ` set cs" using Cons.prems(2) p by auto
  have hyp: "\<forall>(c', f') \<in> set cs. \<exists>xs. getitem ?df1 c' = Inr xs \<and> (\<forall>x \<in> set xs. \<exists>y. f' x = Inr y)"
  proof safe
    fix c' f' assume m: "(c', f') \<in> set cs"
    then have "c' \<noteq> c" using notin by force
    with m Cons.prems(3) show "\<exists>xs. getitem ?df1 c' = Inr xs \<and> (\<forall>x \<in> set xs. \<exists>y. f' x = Inr y)"
      by (auto simp: get1)
  qed
  from Cons.IH[OF keep(1) _ hyp] Cons.prems(2) obtain df' where
    d: "convert_cols cs ?df1 = Inr df'" "wf_frame df'" "columns df' = columns ?df1"
       "length (rows df') = length (rows ?df1)" "index df' = index ?df1"
       "\<forall>(c, f) \<in> set cs. \<forall>xs. getitem ?df1 c = Inr xs \<longrightarrow> getitem df' c = Inr (map (\<lambda>x. projr (f x)) xs)"
       "\<forall>c. c \<notin> fst ` set cs \<longrightarrow> getitem df' c = getitem ?df1 c"
    by auto
  have conv: "convert_cols (p # cs) df = Inr df'"
    using p xs traverse_ok[OF ok] d(1) by simp
  have a: "\<forall>(c', f') \<in> set (p # cs). \<forall>xs. getitem df c' = Inr xs \<longrightarrow> getitem df' c' = Inr (map (\<lambda>x. projr (f' x)) xs)"
  proof safe
    fix c' f' xs' assume m: "(c', f') \<in> set (p # cs)" and g: "getitem df c' = Inr xs'"
    show "getitem df' c' = Inr (map (\<lambda>x. projr (f' x)) xs')"
    proof (cases "(c', f') = (c, f)")
      case True
      then show ?thesis using d(7) notin get1[of c] xs g by auto
    next
      case False
      with m p have m': "(c', f') \<in> set cs" by auto
      then have "c' \<noteq> c" using notin by force
      with m' d(6) g show ?thesis by (auto simp: get1)
    qed
  qed
  have b: "\<forall>c'. c' \<notin> fst ` set (p # cs) \<longrightarrow> getitem df' c' = getitem df c'"
    using d(7) p by (auto simp: get1)
  show ?case
    using conv d(2,3,4,5) keep a b by auto
qed

subsection \<open>The daylight-saving day\<close>

lemma dst_hours_eq:
  "insert_at 2 ''H02X'' hour_names = [''H01'', ''H02'', ''H02X'', ''H03'', ''H04'', ''H05'', ''H06'',
     ''H07'', ''H08'', ''H09'', ''H10'', ''H11'', ''H12'', ''H13'', ''H14'', ''H15'', ''H16'', ''H17'',
     ''H18'', ''H19'', ''H20'', ''H21'', ''H22'', ''H23'', ''H24'']"
  by (simp add: hour_names_eq insert_at_def)

lemma dst_hours_facts:
  "length (insert_at 2 ''H02X'' hour_names) = 25"
  "distinct (insert_at 2 ''H02X'' hour_names)"
  "''segment'' \<notin> set (insert_at 2 ''H02X'' hour_names)"
  "''date'' \<notin> set (insert_at 2 ''H02X'' hour_names)"
  by (simp_all add: dst_hours_eq)

lemma foldr_max_const':
  "\<forall>x \<in> set xs. length x = n \<Longrightarrow> foldr max (map length xs) 0 = (if xs = [] then 0 else n)"
  by (induction xs) auto

lemma foldr_max_const:
  "xs \<noteq> [] \<Longrightarrow> \<forall>x \<in> set xs. length x = n \<Longrightarrow> foldr max (map length xs) 0 = n"
  using foldr_max_const'[of xs n] by simp

lemma cell_at_drop_nth: "j' < j \<Longrightarrow> cell_at (drop_nth j r) j' = cell_at r j'"
  by (auto simp: cell_at_def drop_nth_def nth_append)

lemma zip_map_same: "zip (map f ps) (map g ps) = map (\<lambda>r. (f r, g r)) ps"
  by (induction ps) auto

lemma traverse_float_add:
  "traverse (\<lambda>(x, y). float_add x y) (map (\<lambda>r. (Num (a r), Num (b r))) ps) = Inr (map (\<lambda>r. Num (a r + b r)) ps)"
  by (induction ps) auto

lemma col_pos_distinct: "distinct cols \<Longrightarrow> j < length cols \<Longrightarrow> col_pos (cols ! j) cols = Some j"
proof (induction cols arbitrary: j)
  case Nil
  then show ?case by simp
next
  case (Cons x xs)
  show ?case
  proof (cases j)
    case 0
    then show ?thesis by simp
  next
    case (Suc k)
    with Cons.prems have "xs ! k \<noteq> x" "col_pos (xs ! k) xs = Some k"
      using Cons.IH[of k] by auto
    with Suc show ?thesis by auto
  qed
qed

lemma rows_of_columns:
  assumes wf: "wf_frame df" and d: "distinct (columns df)" and l: "length (rows df) = length ps"
    and g: "\<And>j. j < length (columns df) \<Longrightarrow> getitem df (columns df ! j) = Inr (map (X j) ps)"
  shows "rows df = map (\<lambda>r. map (\<lambda>j. X j r) [0..<length (columns df)]) ps"
proof (rule nth_equalityI)
  show "length (rows df) = length (map (\<lambda>r. map (\<lambda>j. X j r) [0..<length (columns df)]) ps)"
    using l by simp
next
  fix i assume i: "i < length (rows df)"
  then have li: "length (rows df ! i) = length (columns df)"
    using wf by (simp add: wf_frame_def)
  have "rows df ! i = map (\<lambda>j. X j (ps ! i)) [0..<length (columns df)]"
  proof (rule nth_equalityI)
    show "length (rows df ! i) = length (map (\<lambda>j. X j (ps ! i)) [0..<length (columns df)])"
      using li by simp
  next
    fix j assume "j < length (rows df ! i)"
    then have j: "j < length (columns df)" using li by simp
    have "map (\<lambda>r. cell_at r j) (rows df) = map (X j) ps"
      using g[OF j] col_pos_distinct[OF d j] by (simp add: getitem_def)
    then have "map (\<lambda>r. cell_at r j) (rows df) ! i = map (X j) ps ! i" by simp
    then have "cell_at (rows df ! i) j = X j (ps ! i)" using i l by simp
    then show "rows df ! i ! j = map (\<lambda>j. X j (ps ! i)) [0..<length (columns df)] ! j"
      using j li by (simp add: cell_at_def)
  qed
  then show "rows df ! i = map (\<lambda>r. map (\<lambda>j. X j r) [0..<length (columns df)]) ps ! i"
    using i l by simp
qed

lemma drop_as_upt: "drop n xs = map (\<lambda>j. xs ! j) [n..<length xs]"
  by (rule nth_equalityI) simp_all

lemma row_shape:
  assumes "length r = 27"
  shows "map (\<lambda>j. if j = 0 then A (r ! 0) else if j = 1 then B (r ! 1) else C (r ! j)) [0..<27]
           = A (r ! 0) # B (r ! 1) # map C (drop 2 r)"
proof -
  have "[0..<27] = 0 # 1 # [2..<27]" by (simp add: upt_conv_Cons)
  moreover have "map (\<lambda>j. if j = 0 then A (r ! 0) else if j = 1 then B (r ! 1) else C (r ! j)) [2..<27]
                   = map (\<lambda>j. C (r ! j)) [2..<27]"
    by (rule map_cong) auto
  moreover have "map C (drop 2 r) = map (\<lambda>j. C (r ! j)) [2..<27]"
    using assms by (simp add: drop_as_upt[of 2 r] comp_def)
  ultimately show ?thesis by simp
qed

lemma drop_2_of_27:
  assumes "length r = 27"
  shows "drop 2 r = r ! 2 # r ! 3 # r ! 4 # drop 5 r"
proof -
  have "drop 2 r = r ! 2 # drop 3 r" using assms Cons_nth_drop_Suc[of 2 r] by simp
  moreover have "drop 3 r = r ! 3 # drop 4 r" using assms Cons_nth_drop_Suc[of 3 r] by simp
  moreover have "drop 4 r = r ! 4 # drop 5 r" using assms Cons_nth_drop_Suc[of 4 r] by simp
  ultimately show ?thesis by simp
qed

lemma frame_of_text_dst:
  fixes lib :: "'f::plus lib"
  assumes v: "valid_dst_rows lib (parse_lines data)"
  defines "fl \<equiv> \<lambda>t. the (float_of_str lib t)"
    and "seg \<equiv> \<lambda>r. Str (drop 8 (strip (r ! 0)))"
    and "dte \<equiv> \<lambda>r. Dt (the (to_datetime_mdY lib (r ! 1)))"
  shows "frame_of_text lib data True =
           Inr \<lparr>index = RangeIndex (length (parse_lines data)),
                columns = ''segment'' # ''date'' # hour_names,
                rows = map (\<lambda>r. seg r # dte r # Num (fl (r ! 2)) # Num (fl (r ! 3) + fl (r ! 4))
                                  # map (\<lambda>t. Num (fl t)) (drop 5 r)) (parse_lines data)\<rparr>"
    and "frame_of_text lib data False =
           Inr \<lparr>index = RangeIndex (length (parse_lines data)),
                columns = ''segment'' # ''date'' # insert_at 2 ''H02X'' hour_names,
                rows = map (\<lambda>r. seg r # dte r # map (\<lambda>t. Num (fl t)) (drop 2 r)) (parse_lines data)\<rparr>"
proof -
  define parsed where "parsed = parse_lines data"
  define hours where "hours = insert_at 2 ''H02X'' hour_names"
  define cols where "cols = [''segment'', ''date''] @ hours"
  define dtypes where "dtypes = map (\<lambda>h. (h, astype_float lib)) hours
      @ [(''date'', to_datetime_cell lib), (''segment'', str_strip_slice)]"
  define df0 :: "'f frame" where
    "df0 = \<lparr>index = RangeIndex (length parsed), columns = cols, rows = map (map Str) parsed\<rparr>"
  have ne: "parsed \<noteq> []" and len: "\<And>r. r \<in> set parsed \<Longrightarrow> length r = 27"
    and dates: "\<And>r. r \<in> set parsed \<Longrightarrow> to_datetime_mdY lib (r ! 1) \<noteq> None"
    and floats: "\<And>r t. r \<in> set parsed \<Longrightarrow> t \<in> set (drop 2 r) \<Longrightarrow> float_of_str lib t \<noteq> None"
    using v by (auto simp: valid_dst_rows_def parsed_def)
  have hd27: "length (hd parsed) = 27" using ne len by (cases parsed) auto
  have lcols: "length cols = 27" by (simp add: cols_def hours_def dst_hours_facts)
  have frame0: "DataFrame parsed cols = Inr df0"
    using foldr_max_const[of parsed 27] ne len lcols
    by (simp add: DataFrame_def df0_def cong: map_cong)
  have wf0: "wf_frame df0" using len lcols by (auto simp: wf_frame_def df0_def)
  have get0: "getitem df0 c = Inr (map (\<lambda>r. Str (r ! j)) parsed)" if "col_pos c cols = Some j" for c j
  proof -
    have "j < 27" using col_pos_Some[OF that] lcols by simp
    then have "cell_at (map Str r) j = (Str (r ! j) :: 'f cell)" if "r \<in> set parsed" for r
      using len[OF that] by (simp add: cell_at_def)
    then show ?thesis using that by (simp add: getitem_def df0_def comp_def cong: map_cong)
  qed
  have pos_hour: "\<exists>k < 25. col_pos h cols = Some (2 + k)" if "h \<in> set hours" for h
  proof -
    from that obtain k where k: "col_pos h hours = Some k"
      using col_pos_None[of h hours] by (cases "col_pos h hours") auto
    have "k < 25" using col_pos_Some[OF k] by (simp add: hours_def dst_hours_facts)
    moreover have "h \<notin> set [''segment'', ''date'']"
      using that dst_hours_facts(3,4) by (auto simp: hours_def)
    then have "col_pos h cols = Some (2 + k)"
      unfolding cols_def using col_pos_append[of h "[''segment'', ''date'']" hours] k by simp
    ultimately show ?thesis by blast
  qed
  have pos: "col_pos ''segment'' cols = Some 0" "col_pos ''date'' cols = Some 1"
    "col_pos ''H02'' cols = Some 3" "col_pos ''H02X'' cols = Some 4"
    by (simp_all add: cols_def hours_def dst_hours_eq)
  have tok: "r ! (2 + k) \<in> set (drop 2 r)" if "r \<in> set parsed" "k < 25" for r k
  proof -
    have "drop 2 r ! k = r ! (2 + k)" using len[OF that(1)] that(2) by simp
    moreover have "k < length (drop 2 r)" using len[OF that(1)] that(2) by simp
    ultimately show ?thesis using nth_mem by metis
  qed
  have dist: "distinct (map fst dtypes)"
    using dst_hours_facts by (simp add: dtypes_def hours_def comp_def)
  have ok: "\<forall>(c, f) \<in> set dtypes. \<exists>xs. getitem df0 c = Inr xs \<and> (\<forall>x \<in> set xs. \<exists>y. f x = Inr y)"
  proof safe
    fix c f assume m: "(c, f) \<in> set dtypes"
    then consider (hour) "c \<in> set hours" "f = astype_float lib"
      | (date) "c = ''date''" "f = to_datetime_cell lib"
      | (seg) "c = ''segment''" "f = str_strip_slice"
      by (auto simp: dtypes_def)
    then show "\<exists>xs. getitem df0 c = Inr xs \<and> (\<forall>x \<in> set xs. \<exists>y. f x = Inr y)"
    proof cases
      case hour
      from pos_hour[OF hour(1)] obtain k where k: "k < 25" "col_pos c cols = Some (2 + k)" by blast
      have "\<exists>y. astype_float lib (Str (r ! (2 + k))) = Inr y" if "r \<in> set parsed" for r
        using floats[OF that tok[OF that k(1)]] by auto
      then show ?thesis using get0[OF k(2)] hour(2) by auto
    next
      case date
      have "\<exists>y. to_datetime_cell lib (Str (r ! 1)) = Inr y" if "r \<in> set parsed" for r
        using dates[OF that] by auto
      then show ?thesis using get0[OF pos(2)] date by auto
    next
      case seg
      then show ?thesis using get0[OF pos(1)] by auto
    qed
  qed
  from convert_cols_ok[OF wf0 dist ok] obtain df where
    df: "convert_cols dtypes df0 = Inr df" "wf_frame df" "columns df = cols"
      "length (rows df) = length parsed" "index df = RangeIndex (length parsed)"
      "\<forall>(c, f) \<in> set dtypes. \<forall>xs. getitem df0 c = Inr xs \<longrightarrow> getitem df c = Inr (map (\<lambda>x. projr (f x)) xs)"
    by (auto simp: df0_def)
  have hour_col: "getitem df c = Inr (map (\<lambda>r. Num (the (float_of_str lib (r ! (2 + k))))) parsed)"
    if "c \<in> set hours" "col_pos c cols = Some (2 + k)" "k < 25" for c k
  proof -
    have "(c, astype_float lib) \<in> set dtypes" using that(1) by (auto simp: dtypes_def)
    with df(6) get0[OF that(2)]
    have "getitem df c = Inr (map (\<lambda>x. projr (astype_float lib x)) (map (\<lambda>r. Str (r ! (2 + k))) parsed))"
      by blast
    moreover have "projr (astype_float lib (Str (r ! (2 + k)))) = Num (the (float_of_str lib (r ! (2 + k))))"
      if "r \<in> set parsed" for r
      using floats[OF that tok[OF that \<open>k < 25\<close>]] by auto
    ultimately show ?thesis by (simp add: comp_def cong: map_cong)
  qed
  have H02: "getitem df ''H02'' = Inr (map (\<lambda>r. Num (fl (r ! 3))) parsed)"
    using hour_col[of "''H02''" 1] pos(3) by (simp add: hours_def dst_hours_eq fl_def)
  have H02X: "getitem df ''H02X'' = Inr (map (\<lambda>r. Num (fl (r ! 4))) parsed)"
    using hour_col[of "''H02X''" 2] pos(4) by (simp add: hours_def dst_hours_eq fl_def)
  have start: "frame_of_text lib data agg =
      (if agg then (case iadd_cols df ''H02'' ''H02X'' of Inl e \<Rightarrow> Inl e | Inr df' \<Rightarrow> delitem df' ''H02X'')
       else Inr df)" for agg
    using ne hd27 frame0[unfolded cols_def] df(1)[unfolded dtypes_def]
    by (simp add: frame_of_text_def Let_def parsed_def[symmetric] hours_def[symmetric])
  define X :: "nat \<Rightarrow> string list \<Rightarrow> 'f cell" where
    "X = (\<lambda>j r. if j = 0 then seg r else if j = 1 then dte r else Num (fl (r ! j)))"
  have dcols: "distinct cols"
    using dst_hours_facts by (simp add: cols_def hours_def)
  have allcols: "getitem df (cols ! j) = Inr (map (X j) parsed)" if j: "j < 27" for j
  proof -
    consider (seg) "j = 0" | (date) "j = 1" | (hour) "2 \<le> j" by linarith
    then show ?thesis
    proof cases
      case seg
      have "(''segment'', str_strip_slice) \<in> set dtypes" by (simp add: dtypes_def)
      with df(6) get0[OF pos(1)]
      have "getitem df ''segment'' = Inr (map (\<lambda>x. projr (str_strip_slice x)) (map (\<lambda>r. Str (r ! 0)) parsed))"
        by blast
      then show ?thesis using seg by (simp add: cols_def X_def seg_def comp_def)
    next
      case date
      have "(''date'', to_datetime_cell lib) \<in> set dtypes" by (simp add: dtypes_def)
      with df(6) get0[OF pos(2)]
      have "getitem df ''date'' = Inr (map (\<lambda>x. projr (to_datetime_cell lib x)) (map (\<lambda>r. Str (r ! 1)) parsed))"
        by blast
      moreover have "projr (to_datetime_cell lib (Str (r ! 1))) = dte r" if "r \<in> set parsed" for r
        using dates[OF that] by (auto simp: dte_def)
      ultimately show ?thesis using date by (simp add: cols_def X_def comp_def cong: map_cong)
    next
      case hour
      define k where "k = j - 2"
      have k: "k < 25" "j = 2 + k" using hour j by (simp_all add: k_def)
      have c: "cols ! j = hours ! k" by (simp add: cols_def k(2))
      have "hours ! k \<in> set hours" using k(1) by (simp add: hours_def dst_hours_facts)
      moreover have "col_pos (cols ! j) cols = Some (2 + k)"
        using col_pos_distinct[OF dcols, of j] j lcols k(2) by simp
      ultimately have "getitem df (cols ! j) = Inr (map (\<lambda>r. Num (the (float_of_str lib (r ! (2 + k))))) parsed)"
        using hour_col[of "cols ! j" k] k(1) c by simp
      then show ?thesis using hour k(2) by (simp add: X_def fl_def)
    qed
  qed
  have "rows df = map (\<lambda>r. map (\<lambda>j. X j r) [0..<length (columns df)]) parsed"
    by (rule rows_of_columns[OF df(2) _ df(4)]) (simp_all add: df(3) dcols lcols allcols)
  also have "\<dots> = map (\<lambda>r. seg r # dte r # map (\<lambda>t. Num (fl t)) (drop 2 r)) parsed"
  proof (rule map_cong[OF refl])
    fix r assume "r \<in> set parsed"
    then have "length r = 27" by (rule len)
    then show "map (\<lambda>j. X j r) [0..<length (columns df)] = seg r # dte r # map (\<lambda>t. Num (fl t)) (drop 2 r)"
      unfolding df(3) lcols X_def seg_def dte_def
      by (rule row_shape[of r "\<lambda>t. Str (drop 8 (strip t))"
                    "\<lambda>t. Dt (the (to_datetime_mdY lib t))" "\<lambda>t. Num (fl t)"])
  qed
  finally have rowsF: "rows df = map (\<lambda>r. seg r # dte r # map (\<lambda>t. Num (fl t)) (drop 2 r)) parsed" .
  have "df = \<lparr>index = RangeIndex (length parsed), columns = cols,
               rows = map (\<lambda>r. seg r # dte r # map (\<lambda>t. Num (fl t)) (drop 2 r)) parsed\<rparr>"
    using df(3,5) rowsF by (cases df) simp
  then show "frame_of_text lib data False =
           Inr \<lparr>index = RangeIndex (length (parse_lines data)),
                columns = ''segment'' # ''date'' # insert_at 2 ''H02X'' hour_names,
                rows = map (\<lambda>r. seg r # dte r # map (\<lambda>t. Num (fl t)) (drop 2 r)) (parse_lines data)\<rparr>"
    using start[of False] by (simp add: cols_def hours_def parsed_def)
  let ?zs = "map (\<lambda>r. Num (fl (r ! 3) + fl (r ! 4))) parsed"
  let ?df1 = "setitem df ''H02'' ?zs"
  have p3: "col_pos ''H02'' (columns df) = Some 3" and p4: "col_pos ''H02X'' (columns df) = Some 4"
    using pos df(3) by simp_all
  have lz: "length ?zs = length (rows df)" using df(4) by simp
  have iadd: "iadd_cols df ''H02'' ''H02X'' = Inr ?df1"
    using H02 H02X traverse_float_add[of "\<lambda>r. fl (r ! 3)" "\<lambda>r. fl (r ! 4)" parsed]
    by (simp add: iadd_cols_def zip_map_same)
  note keep = setitem_keeps[OF df(2) p3 lz]
  define df2 where "df2 = ?df1\<lparr>columns := drop_nth 4 (columns ?df1), rows := map (drop_nth 4) (rows ?df1)\<rparr>"
  have del: "delitem ?df1 ''H02X'' = Inr df2"
    using p4 keep(2) by (simp add: delitem_def df2_def)
  have c2: "columns df2 = ''segment'' # ''date'' # hour_names"
    by (simp add: df2_def keep(2) df(3) cols_def hours_def dst_hours_eq drop_nth_def)
       (simp add: hour_names_eq)
  have i2: "index df2 = RangeIndex (length parsed)"
    by (simp add: df2_def keep(4) df(5))
  have "rows df2 = map (\<lambda>r. drop_nth 4 ((seg r # dte r # map (\<lambda>t. Num (fl t)) (drop 2 r))
                                          [3 := Num (fl (r ! 3) + fl (r ! 4))])) parsed"
    using p3 by (simp add: df2_def setitem_def rowsF zip_map_same comp_def)
  also have "\<dots> = map (\<lambda>r. seg r # dte r # Num (fl (r ! 2)) # Num (fl (r ! 3) + fl (r ! 4))
                                  # map (\<lambda>t. Num (fl t)) (drop 5 r)) parsed"
  proof (rule map_cong[OF refl])
    fix r assume "r \<in> set parsed"
    from drop_2_of_27[OF len[OF this]]
    show "drop_nth 4 ((seg r # dte r # map (\<lambda>t. Num (fl t)) (drop 2 r))[3 := Num (fl (r ! 3) + fl (r ! 4))])
            = seg r # dte r # Num (fl (r ! 2)) # Num (fl (r ! 3) + fl (r ! 4)) # map (\<lambda>t. Num (fl t)) (drop 5 r)"
      by (simp add: drop_nth_def numeral_3_eq_3)
  qed
  finally have r2: "rows df2 = map (\<lambda>r. seg r # dte r # Num (fl (r ! 2)) # Num (fl (r ! 3) + fl (r ! 4))
                                  # map (\<lambda>t. Num (fl t)) (drop 5 r)) parsed" .
  have "df2 = \<lparr>index = RangeIndex (length parsed), columns = ''segment'' # ''date'' # hour_names,
                rows = map (\<lambda>r. seg r # dte r # Num (fl (r ! 2)) # Num (fl (r ! 3) + fl (r ! 4))
                                  # map (\<lambda>t. Num (fl t)) (drop 5 r)) parsed\<rparr>"
    using c2 i2 r2 by (cases df2) simp
  then show "frame_of_text lib data True =
           Inr \<lparr>index = RangeIndex (length (parse_lines data)),
                columns = ''segment'' # ''date'' # hour_names,
                rows = map (\<lambda>r. seg r # dte r # Num (fl (r ! 2)) # Num (fl (r ! 3) + fl (r ! 4))
                                  # map (\<lambda>t. Num (fl t)) (drop 5 r)) (parse_lines data)\<rparr>"
    using start[of True] iadd del by (simp add: parsed_def)
qed

text \<open>
  Claim C1. A valid daylight-saving input: the fetch succeeds, and every line kept by the
  parser has 27 tokens, a date in the second place and floats in the last 25. The two
  Hour-2 tokens of a line are its fourth and fifth. With aggregation the table has the
  columns \<^verbatim>\<open>segment\<close>, \<^verbatim>\<open>date\<close>, \<^verbatim>\<open>H01\<close> to \<^verbatim>\<open>H24\<close>, so no \<^verbatim>\<open>H02X\<close>, and
  its \<^verbatim>\<open>H02\<close> is, row by row, the sum of the two tokens read as floats. The cells go
  with the name: every row has one cell for each of the 26 names, namely the segment, the
  date, Hour 1, the sum, and then the tokens of Hours 3 to 24, so nothing of the second
  Hour 2 is left in a row and every later hour is read under its own name. Without
  aggregation \<^verbatim>\<open>H02\<close> and \<^verbatim>\<open>H02X\<close> are both there and hold the two values, in rows of
  27 cells that follow the tokens one for one.
\<close>

theorem dst_hour2_aggregation:
  fixes lib :: "'f::plus lib"
  assumes "fst (retrieve_raw_data self dt ldc w) = Inr (Some data)"
    and "valid_dst_rows lib (parse_lines data)"
  shows "(\<exists>df. fst (get_lp_series lib self dt ldc True w) = Inr (Some df)
              \<and> ''H02X'' \<notin> set (columns df)
              \<and> columns df = ''segment'' # ''date'' # hour_names
              \<and> getitem df ''H02'' =
                  Inr (map (\<lambda>r. Num (the (float_of_str lib (r ! 3)) + the (float_of_str lib (r ! 4))))
                         (parse_lines data))
              \<and> wf_frame df
              \<and> index df = RangeIndex (length (parse_lines data))
              \<and> rows df =
                  map (\<lambda>r. Str (drop 8 (strip (r ! 0))) # Dt (the (to_datetime_mdY lib (r ! 1)))
                             # Num (the (float_of_str lib (r ! 2)))
                             # Num (the (float_of_str lib (r ! 3)) + the (float_of_str lib (r ! 4)))
                             # map (\<lambda>t. Num (the (float_of_str lib t))) (drop 5 r))
                    (parse_lines data))
       \<and> (\<exists>df. fst (get_lp_series lib self dt ldc False w) = Inr (Some df)
              \<and> getitem df ''H02'' = Inr (map (\<lambda>r. Num (the (float_of_str lib (r ! 3)))) (parse_lines data))
              \<and> getitem df ''H02X'' = Inr (map (\<lambda>r. Num (the (float_of_str lib (r ! 4)))) (parse_lines data))
              \<and> wf_frame df
              \<and> columns df = ''segment'' # ''date'' # insert_at 2 ''H02X'' hour_names
              \<and> index df = RangeIndex (length (parse_lines data))
              \<and> rows df =
                  map (\<lambda>r. Str (drop 8 (strip (r ! 0))) # Dt (the (to_datetime_mdY lib (r ! 1)))
                             # map (\<lambda>t. Num (the (float_of_str lib t))) (drop 2 r))
                    (parse_lines data))"
proof -
  have len: "length r = 27" if "r \<in> set (parse_lines data)" for r
    using assms(2) that by (simp add: valid_dst_rows_def)
  define dfT :: "'f frame" where
    "dfT = \<lparr>index = RangeIndex (length (parse_lines data)),
            columns = ''segment'' # ''date'' # hour_names,
            rows = map (\<lambda>r. Str (drop 8 (strip (r ! 0))) # Dt (the (to_datetime_mdY lib (r ! 1)))
                             # Num (the (float_of_str lib (r ! 2)))
                             # Num (the (float_of_str lib (r ! 3)) + the (float_of_str lib (r ! 4)))
                             # map (\<lambda>t. Num (the (float_of_str lib t))) (drop 5 r))
                     (parse_lines data)\<rparr>"
  define dfF :: "'f frame" where
    "dfF = \<lparr>index = RangeIndex (length (parse_lines data)),
            columns = ''segment'' # ''date'' # insert_at 2 ''H02X'' hour_names,
            rows = map (\<lambda>r. Str (drop 8 (strip (r ! 0))) # Dt (the (to_datetime_mdY lib (r ! 1)))
                             # map (\<lambda>t. Num (the (float_of_str lib t))) (drop 2 r))
                     (parse_lines data)\<rparr>"
  have t: "fst (get_lp_series lib self dt ldc True w) = Inr (Some dfT)"
    using get_lp_series_fetched[OF assms(1), of lib True] frame_of_text_dst(1)[OF assms(2)]
    by (simp add: dfT_def)
  have f: "fst (get_lp_series lib self dt ldc False w) = Inr (Some dfF)"
    using get_lp_series_fetched[OF assms(1), of lib False] frame_of_text_dst(2)[OF assms(2)]
    by (simp add: dfF_def)
  have t1: "''H02X'' \<notin> set (columns dfT)" by (simp add: dfT_def hour_names_eq)
  have t2: "getitem dfT ''H02'' =
              Inr (map (\<lambda>r. Num (the (float_of_str lib (r ! 3)) + the (float_of_str lib (r ! 4))))
                     (parse_lines data))"
    by (simp add: dfT_def getitem_def hour_names_eq cell_at_def comp_def)
  have t3: "wf_frame dfT"
    using len by (auto simp: dfT_def wf_frame_def hour_names_eq)
  have f1: "getitem dfF ''H02'' = Inr (map (\<lambda>r. Num (the (float_of_str lib (r ! 3)))) (parse_lines data))"
    and f2: "getitem dfF ''H02X'' = Inr (map (\<lambda>r. Num (the (float_of_str lib (r ! 4)))) (parse_lines data))"
    using len by (simp_all add: dfF_def getitem_def dst_hours_eq cell_at_def comp_def cong: map_cong)
  have f3: "wf_frame dfF"
    using len by (auto simp: dfF_def wf_frame_def dst_hours_eq)
  have a: "\<exists>df. fst (get_lp_series lib self dt ldc True w) = Inr (Some df)
              \<and> ''H02X'' \<notin> set (columns df)
              \<and> columns df = ''segment'' # ''date'' # hour_names
              \<and> getitem df ''H02'' =
                  Inr (map (\<lambda>r. Num (the (float_of_str lib (r ! 3)) + the (float_of_str lib (r ! 4))))
                         (parse_lines data))
              \<and> wf_frame df
              \<and> index df = RangeIndex (length (parse_lines data))
              \<and> rows df =
                  map (\<lambda>r. Str (drop 8 (strip (r ! 0))) # Dt (the (to_datetime_mdY lib (r ! 1)))
                             # Num (the (float_of_str lib (r ! 2)))
                             # Num (the (float_of_str lib (r ! 3)) + the (float_of_str lib (r ! 4)))
                             # map (\<lambda>t. Num (the (float_of_str lib t))) (drop 5 r))
                    (parse_lines data)"
    using t t1 t2 t3 by (intro exI[of _ dfT]) (simp add: dfT_def)
  have b: "\<exists>df. fst (get_lp_series lib self dt ldc False w) = Inr (Some df)
              \<and> getitem df ''H02'' = Inr (map (\<lambda>r. Num (the (float_of_str lib (r ! 3)))) (parse_lines data))
              \<and> getitem df ''H02X'' = Inr (map (\<lambda>r. Num (the (float_of_str lib (r ! 4)))) (parse_lines data))
              \<and> wf_frame df
              \<and> columns df = ''segment'' # ''date'' # insert_at 2 ''H02X'' hour_names
              \<and> index df = RangeIndex (length (parse_lines data))
              \<and> rows df =
                  map (\<lambda>r. Str (drop 8 (strip (r ! 0))) # Dt (the (to_datetime_mdY lib (r ! 1)))
                             # map (\<lambda>t. Num (the (float_of_str lib t))) (drop 2 r))
                    (parse_lines data)"
    using f f1 f2 f3 by (intro exI[of _ dfF]) (simp add: dfF_def)
  show ?thesis using a b by blast
qed

lemma split_dst_rows:
  "split_ws example_dst_row1 =
    [''DPLMD000RES'', ''11/05/2017'', ''101'', ''102'', ''130'', ''104'', ''105'', ''106'',
     ''107'', ''108'', ''109'', ''110'', ''111'', ''112'', ''113'', ''114'', ''115'', ''116'',
     ''117'', ''118'', ''119'', ''120'', ''121'', ''122'', ''123'', ''124'', ''125'']"
  "split_ws example_dst_row2 =
    [''DPLMD000GS'', ''11/05/2017'', ''201'', ''202'', ''230'', ''204'', ''205'', ''206'',
     ''207'', ''208'', ''209'', ''210'', ''211'', ''212'', ''213'', ''214'', ''215'', ''216'',
     ''217'', ''218'', ''219'', ''220'', ''221'', ''222'', ''223'', ''224'', ''225'']"
  by (simp_all add: split_ws_def example_dst_row1_def example_dst_row2_def isspace_def)

lemma parse_dst_example:
  "parse_lines example_dst_text = [split_ws example_dst_row1, split_ws example_dst_row2]"
  by (simp add: parse_lines_def example_dst_text_def example_headers_only_def example_dst_row1_def
      example_dst_row2_def replace_char_def enumerate_eq_zip)

lemma valid_dst_example: "valid_dst_rows example_lib (parse_lines example_dst_text)"
  by (simp add: parse_dst_example split_dst_rows valid_dst_rows_def example_lib_def parse_defs)

theorem dst_hour2_aggregation_witness:
  "fst (retrieve_raw_data example_self (DateObj (Date 2017 11 5)) ''CND'' (web_answering 200 example_dst_text))
     = Inr (Some example_dst_text)
   \<and> valid_dst_rows example_lib (parse_lines example_dst_text)
   \<and> (\<exists>df. fst (get_lp_series example_lib example_self (DateObj (Date 2017 11 5)) ''CND'' True
                   (web_answering 200 example_dst_text)) = Inr (Some df)
            \<and> ''H02X'' \<notin> set (columns df)
            \<and> getitem df ''H02'' = Inr [Num 232, Num 432]
            \<and> wf_frame df
            \<and> rows df =
                [[Str ''RES'', Dt (Date 2017 11 5), Num 101, Num 232, Num 104, Num 105, Num 106, Num 107,
                  Num 108, Num 109, Num 110, Num 111, Num 112, Num 113, Num 114, Num 115, Num 116,
                  Num 117, Num 118, Num 119, Num 120, Num 121, Num 122, Num 123, Num 124, Num 125],
                 [Str ''GS'', Dt (Date 2017 11 5), Num 201, Num 432, Num 204, Num 205, Num 206, Num 207,
                  Num 208, Num 209, Num 210, Num 211, Num 212, Num 213, Num 214, Num 215, Num 216,
                  Num 217, Num 218, Num 219, Num 220, Num 221, Num 222, Num 223, Num 224, Num 225]])
   \<and> (\<exists>df. fst (get_lp_series example_lib example_self (DateObj (Date 2017 11 5)) ''CND'' False
                   (web_answering 200 example_dst_text)) = Inr (Some df)
            \<and> getitem df ''H02'' = Inr [Num 102, Num 202]
            \<and> getitem df ''H02X'' = Inr [Num 130, Num 230]
            \<and> wf_frame df
            \<and> rows df =
                [[Str ''RES'', Dt (Date 2017 11 5), Num 101, Num 102, Num 130, Num 104, Num 105, Num 106,
                  Num 107, Num 108, Num 109, Num 110, Num 111, Num 112, Num 113, Num 114, Num 115,
                  Num 116, Num 117, Num 118, Num 119, Num 120, Num 121, Num 122, Num 123, Num 124,
                  Num 125],
                 [Str ''GS'', Dt (Date 2017 11 5), Num 201, Num 202, Num 230, Num 204, Num 205, Num 206,
                  Num 207, Num 208, Num 209, Num 210, Num 211, Num 212, Num 213, Num 214, Num 215,
                  Num 216, Num 217, Num 218, Num 219, Num 220, Num 221, Num 222, Num 223, Num 224,
                  Num 225]])"
proof -
  have f: "fst (retrieve_raw_data example_self (DateObj (Date 2017 11 5)) ''CND''
                 (web_answering 200 example_dst_text)) = Inr (Some example_dst_text)"
    by (rule fetch_example_200)
  have sums: "map (\<lambda>r. Num (the (float_of_str example_lib (r ! 3)) + the (float_of_str example_lib (r ! 4))))
                (parse_lines example_dst_text) = [Num 232, Num 432]"
    "map (\<lambda>r. Num (the (float_of_str example_lib (r ! 3)))) (parse_lines example_dst_text) = [Num 102, Num 202]"
    "map (\<lambda>r. Num (the (float_of_str example_lib (r ! 4)))) (parse_lines example_dst_text) = [Num 130, Num 230]"
    by (simp_all add: parse_dst_example split_dst_rows example_lib_def parse_defs)
  have rowsT: "map (\<lambda>r. Str (drop 8 (strip (r ! 0))) # Dt (the (to_datetime_mdY example_lib (r ! 1)))
                             # Num (the (float_of_str example_lib (r ! 2)))
                             # Num (the (float_of_str example_lib (r ! 3)) + the (float_of_str example_lib (r ! 4)))
                             # map (\<lambda>t. Num (the (float_of_str example_lib t))) (drop 5 r))
                    (parse_lines example_dst_text) =
                [[Str ''RES'', Dt (Date 2017 11 5), Num 101, Num 232, Num 104, Num 105, Num 106, Num 107,
                  Num 108, Num 109, Num 110, Num 111, Num 112, Num 113, Num 114, Num 115, Num 116,
                  Num 117, Num 118, Num 119, Num 120, Num 121, Num 122, Num 123, Num 124, Num 125],
                 [Str ''GS'', Dt (Date 2017 11 5), Num 201, Num 432, Num 204, Num 205, Num 206, Num 207,
                  Num 208, Num 209, Num 210, Num 211, Num 212, Num 213, Num 214, Num 215, Num 216,
                  Num 217, Num 218, Num 219, Num 220, Num 221, Num 222, Num 223, Num 224, Num 225]]"
    by (simp add: parse_dst_example split_dst_rows example_lib_def parse_defs)
  have rowsF: "map (\<lambda>r. Str (drop 8 (strip (r ! 0))) # Dt (the (to_datetime_mdY example_lib (r ! 1)))
                             # map (\<lambda>t. Num (the (float_of_str example_lib t))) (drop 2 r))
                    (parse_lines example_dst_text) =
                [[Str ''RES'', Dt (Date 2017 11 5), Num 101, Num 102, Num 130, Num 104, Num 105, Num 106,
                  Num 107, Num 108, Num 109, Num 110, Num 111, Num 112, Num 113, Num 114, Num 115,
                  Num 116, Num 117, Num 118, Num 119, Num 120, Num 121, Num 122, Num 123, Num 124,
                  Num 125],
                 [Str ''GS'', Dt (Date 2017 11 5), Num 201, Num 202, Num 230, Num 204, Num 205, Num 206,
                  Num 207, Num 208, Num 209, Num 210, Num 211, Num 212, Num 213, Num 214, Num 215,
                  Num 216, Num 217, Num 218, Num 219, Num 220, Num 221, Num 222, Num 223, Num 224,
                  Num 225]]"
    by (simp add: parse_dst_example split_dst_rows example_lib_def parse_defs)
  show ?thesis
    using dst_hour2_aggregation[OF f valid_dst_example] f valid_dst_example
    unfolding sums rowsT rowsF by blast
qed

subsection \<open>Range aggregator\<close>

lemma fetch_loop_respond:
  "respond (snd (fetch_loop self d ldc is prev w)) = respond w"
  by (induction "is" arbitrary: prev w)
     (auto simp: requests_get_def split: option.splits sum.splits prod.splits)

lemma fetch_loop_cong:
  "respond w = respond w' \<Longrightarrow> fst (fetch_loop self d ldc is prev w) = fst (fetch_loop self d ldc is prev w')"
proof (induction "is" arbitrary: prev w w')
  case Nil
  then show ?case by (simp split: option.splits)
next
  case (Cons i rest)
  show ?case
  proof (cases "map_of (ldc_state self) ldc")
    case None
    then show ?thesis by simp
  next
    case (Some st)
    let ?url = "delmarva_url (lower st) (year d) (zfill 2 (str_nat (month d))) (strftime_Ymd d) (upper st) i"
    have r: "respond (w\<lparr>requested := requested w @ [?url]\<rparr>) = respond (w'\<lparr>requested := requested w' @ [?url]\<rparr>)"
      using Cons.prems by simp
    show ?thesis
      using Some Cons.prems Cons.IH[OF r]
      by (simp add: requests_get_def split: sum.splits)
  qed
qed

lemma get_lp_series_respond:
  "respond (snd (get_lp_series lib self dt ldc agg w)) = respond w"
proof -
  have "respond (snd (retrieve_raw_data self dt ldc w)) = respond w"
    by (simp add: retrieve_raw_data_def fetch_loop_respond del: fetch_loop.simps split: pyobj.splits)
  then show ?thesis
    by (cases "retrieve_raw_data self dt ldc w")
       (auto simp: get_lp_series_def split: sum.splits error.splits option.splits)
qed

lemma get_lp_series_cong:
  assumes "respond w = respond w'"
  shows "fst (get_lp_series lib self dt ldc agg w) = fst (get_lp_series lib self dt ldc agg w')"
proof -
  have "fst (retrieve_raw_data self dt ldc w) = fst (retrieve_raw_data self dt ldc w')"
    by (auto simp: retrieve_raw_data_def simp del: fetch_loop.simps split: pyobj.splits
        intro: fetch_loop_cong[OF assms])
  then show ?thesis
    by (cases "retrieve_raw_data self dt ldc w"; cases "retrieve_raw_data self dt ldc w'")
       (auto simp: get_lp_series_def split: sum.splits error.splits option.splits)
qed

lemma series_loop_all_None:
  assumes "\<forall>(dt, ldc) \<in> set todo. fst (get_lp_series lib self (DateObj dt) ldc True w0) = Inr None"
    and "respond w = respond w0"
  shows "fst (series_loop lib self todo w) = Inr (replicate (length todo) None)"
  using assms
proof (induction todo arbitrary: w)
  case Nil
  then show ?case by simp
next
  case (Cons p todo)
  obtain dt ldc where p: "p = (dt, ldc)" by (cases p)
  obtain r w' where g: "get_lp_series lib self (DateObj dt) ldc True w = (r, w')"
    by (cases "get_lp_series lib self (DateObj dt) ldc True w")
  have "fst (get_lp_series lib self (DateObj dt) ldc True w) = Inr None"
    using Cons.prems(1) p get_lp_series_cong[OF Cons.prems(2), of lib self "DateObj dt" ldc True] by simp
  with g have r: "r = Inr None" by simp
  have "respond w' = respond w0"
    using get_lp_series_respond[of lib self "DateObj dt" ldc True w] g Cons.prems(2) by simp
  with Cons have "fst (series_loop lib self todo w') = Inr (replicate (length todo) None)"
    by auto
  then show ?case
    using p g r by (cases "series_loop lib self todo w'") (auto split: sum.splits)
qed

lemma pd_concat_all_None:
  "pd_concat (replicate n None) = Inl (ValueError (if n = 0 then NoObjects else AllNone))"
  by (simp add: pd_concat_def List.map_filter_def)

text \<open>
  Claim C4, as amended. When every combination of a day of the range and an LDC gives
  the "no data" outcome, \<^verbatim>\<open>pd.concat\<close> receives a list of \<^verbatim>\<open>None\<close> only and
  raises \<^verbatim>\<open>ValueError\<close>: "All objects passed were None", or "No objects to
  concatenate" when there is no combination at all. No empty table is returned.
\<close>

theorem no_data_anywhere_fails:
  assumes "as_date lib from_dt = Inr a" and "as_date lib to_dt = Inr b"
    and "\<forall>(dt, ldc) \<in> set (List.product (date_range lib a b) (ldcs self)).
           fst (get_lp_series lib self (DateObj dt) ldc True w) = Inr None"
  shows "fst (get_lp_data lib self from_dt to_dt w) =
           Inl (ValueError (if date_range lib a b = [] \<or> ldcs self = [] then NoObjects else AllNone))"
proof -
  let ?todo = "List.product (date_range lib a b) (ldcs self)"
  have "fst (series_loop lib self ?todo w) = Inr (replicate (length ?todo) None)"
    using series_loop_all_None[OF assms(3)] by simp
  then show ?thesis
    using assms(1,2)
    by (cases "series_loop lib self ?todo w")
       (auto simp: get_lp_data_def Let_def pd_concat_all_None)
qed

lemma days_example: "days_between (Date 2017 1 5) (Date 2017 1 5) = [Date 2017 1 5]"
  by code_simp

lemma days_example' [simp]:
  "days_between (Date 2017 (Suc 0) 5) (Date 2017 (Suc 0) 5) = [Date 2017 (Suc 0) 5]"
  using days_example by simp

lemma no_data_example:
  "fst (get_lp_series example_lib example_self (DateObj d) ''CND'' True (web_answering 404 [])) = Inr None"
  "fst (get_lp_series example_lib example_self (DateObj d) ''CNM'' True (web_answering 404 [])) = Inr None"
  by (simp_all add: get_lp_series_def retrieve_raw_data_def example_self_def web_answering_def
      requests_get_def raise_for_status_def)

theorem no_data_anywhere_witness:
  "as_date example_lib (DateVal (Date 2017 1 5)) = Inr (Date 2017 1 5)
   \<and> list_all (\<lambda>(dt, ldc). fst (get_lp_series example_lib example_self (DateObj dt) ldc True
                                    (web_answering 404 [])) = Inr None)
        (List.product (date_range example_lib (Date 2017 1 5) (Date 2017 1 5)) (ldcs example_self))
   \<and> fst (get_lp_data example_lib example_self (DateVal (Date 2017 1 5)) (DateVal (Date 2017 1 5))
            (web_answering 404 [])) = Inl (ValueError AllNone)"
proof -
  have d: "as_date example_lib (DateVal (Date 2017 1 5)) = Inr (Date 2017 1 5)"
    by (simp add: as_date_def)
  have r: "date_range example_lib (Date 2017 1 5) (Date 2017 1 5) = [Date 2017 1 5]"
    by (simp add: example_lib_def days_example)
  have l: "ldcs example_self = [''CND'', ''CNM'']" by (simp add: example_self_def)
  have h: "\<forall>(dt, ldc) \<in> set (List.product (date_range example_lib (Date 2017 1 5) (Date 2017 1 5)) (ldcs example_self)).
           fst (get_lp_series example_lib example_self (DateObj dt) ldc True (web_answering 404 [])) = Inr None"
    unfolding r l by (simp add: no_data_example)
  have h': "list_all (\<lambda>(dt, ldc). fst (get_lp_series example_lib example_self (DateObj dt) ldc True
                                    (web_answering 404 [])) = Inr None)
        (List.product (date_range example_lib (Date 2017 1 5) (Date 2017 1 5)) (ldcs example_self))"
    unfolding r l by (simp add: no_data_example)
  have c: "fst (get_lp_data example_lib example_self (DateVal (Date 2017 1 5)) (DateVal (Date 2017 1 5))
            (web_answering 404 [])) = Inl (ValueError AllNone)"
    using no_data_anywhere_fails[OF d d h] unfolding r l by simp
  show ?thesis using d h' c by blast
qed

text \<open>
  Claim C4 as stated fails: for one day on which the server answers 404 to every request,
  both calls of the parser give "no data", and the aggregator fails.
\<close>

theorem all_no_data_counterexample:
  "fst (get_lp_series example_lib example_self (DateObj (Date 2017 1 5)) ''CND'' True (web_answering 404 [])) = Inr None
   \<and> fst (get_lp_series example_lib example_self (DateObj (Date 2017 1 5)) ''CNM'' True (web_answering 404 [])) = Inr None
   \<and> List.product (date_range example_lib (Date 2017 1 5) (Date 2017 1 5)) (ldcs example_self)
       = [(Date 2017 1 5, ''CND''), (Date 2017 1 5, ''CNM'')]
   \<and> fst (get_lp_data example_lib example_self (DateVal (Date 2017 1 5)) (DateVal (Date 2017 1 5))
            (web_answering 404 [])) = Inl (ValueError AllNone)"
  by (simp add: no_data_example get_lp_data_def as_date_def example_lib_def days_example Let_def
      example_self_def get_lp_series_def retrieve_raw_data_def web_answering_def
      requests_get_def raise_for_status_def pd_concat_def List.map_filter_def)


subsection \<open>Exporter\<close>

lemma call_result:
  "call m r h = (case m (h ! r) of Inl e \<Rightarrow> (Inl e, h) | Inr df \<Rightarrow> (Inr (length h), h @ [df]))"
  by (simp add: call_def)

lemma export_steps_value:
  assumes "lp < length h"
  shows "\<exists>objs. snd (export_steps self lp h) = h @ objs
           \<and> (case export_table self (h ! lp) of
                 Inl e \<Rightarrow> fst (export_steps self lp h) = Inl e
               | Inr t \<Rightarrow> \<exists>out. fst (export_steps self lp h) = Inr out \<and> out < length (h @ objs)
                                \<and> (h @ objs) ! out = t)"
  using assms
  by (auto simp: export_steps_def export_table_def and_then_def or_else_def call_def nth_append
      split: sum.splits)





lemma export_for_oracle_heap:
  assumes "lp < length (heap w)"
  shows "\<exists>objs. heap (snd (export_for_oracle lib self lp path_arg file_name_arg w)) = heap w @ objs"
proof -
  from export_steps_value[OF assms, of self] obtain objs where
    o: "snd (export_steps self lp (heap w)) = heap w @ objs" by blast
  have "heap (snd (export_for_oracle lib self lp path_arg file_name_arg w)) = heap w
      \<or> heap (snd (export_for_oracle lib self lp path_arg file_name_arg w)) = heap w @ objs"
    using o
    by (cases "export_steps self lp (heap w)")
       (auto simp: export_for_oracle_def Let_def split: sum.splits)
  then show ?thesis by (metis append_Nil2)
qed

lemma export_for_oracle_unguarded:
  assumes "lp < length (heap w)"
    and "getattr (heap w ! lp) ''date'' = Inr dates"
    and "col_min (s_values dates) = Inr from_date"
    and "col_max (s_values dates) = Inr to_date"
    and "(if file_name_arg = None \<or> file_name_arg = Some [] then format_Ymd from_date
          else Inr (the file_name_arg)) = Inr file_name"
    and "\<not> (isdir (fs w) (py_or path_arg (dest_path self) @ ''Archive'')
            \<and> exists_path (fs w) (py_or path_arg (dest_path self) @ ''Archive'' @ backslash @ file_name))"
    and "export_table self (heap w ! lp) = Inr t"
  shows "fs (snd (export_for_oracle lib self lp path_arg file_name_arg w))
           = write_file (py_or path_arg (dest_path self) @ file_name) (to_csv_lines lib t) (fs w)"
    and "fst (export_for_oracle lib self lp path_arg file_name_arg w)
           = (if is_date from_date \<and> is_date to_date then None else Some (ValueError BadFormat))"
proof -
  from export_steps_value[OF assms(1), of self] assms(7) obtain objs out where
    o: "snd (export_steps self lp (heap w)) = heap w @ objs"
       "fst (export_steps self lp (heap w)) = Inr out" "(heap w @ objs) ! out = t"
    by auto
  then have e: "export_steps self lp (heap w) = (Inr out, heap w @ objs)"
    by (cases "export_steps self lp (heap w)") simp
  show "fs (snd (export_for_oracle lib self lp path_arg file_name_arg w))
           = write_file (py_or path_arg (dest_path self) @ file_name) (to_csv_lines lib t) (fs w)"
    using assms(2-6) e o(3) by (auto simp: export_for_oracle_def Let_def)
  show "fst (export_for_oracle lib self lp path_arg file_name_arg w)
           = (if is_date from_date \<and> is_date to_date then None else Some (ValueError BadFormat))"
    using assms(2-6) e o(3) by (auto simp: export_for_oracle_def Let_def)
qed

lemma export_for_oracle_guarded:
  assumes "getattr (heap w ! lp) ''date'' = Inr dates"
    and "col_min (s_values dates) = Inr from_date"
    and "col_max (s_values dates) = Inr to_date"
    and "(if file_name_arg = None \<or> file_name_arg = Some [] then format_Ymd from_date
          else Inr (the file_name_arg)) = Inr file_name"
    and "isdir (fs w) (py_or path_arg (dest_path self) @ ''Archive'')"
    and "exists_path (fs w) (py_or path_arg (dest_path self) @ ''Archive'' @ backslash @ file_name)"
  shows "export_for_oracle lib self lp path_arg file_name_arg w = (Some FileExistsError, w)"
  using assms by (auto simp: export_for_oracle_def Let_def)

lemma upt_3: "[0..<3] = [0, 1, 2]"
  by (simp add: upt_conv_Cons)

lemma export_table_example: "export_table example_self example_lp = Inr example_out"
  by (simp add: export_table_def or_else_def set_index_def getattr_def join_right_def
      reset_index_drop_def assign_def setitem_def sort_values_def sort_index_def sort_by_def
      comparable_def example_self_def example_lp_def example_codes_def example_out_def
      RangeIndex_def cell_at_def drop_nth_def Let_def date_le_def List.map_filter_def upt_3)

lemma dates_example:
  "getattr example_lp ''date'' =
     Inr \<lparr>s_index = RangeIndex 3, s_name = ''date'',
          s_values = [Dt (Date 2017 1 2), Dt (Date 2017 1 1), Dt (Date 2017 1 1)]\<rparr>"
  "col_min [Dt (Date 2017 1 2), Dt (Date 2017 1 1), Dt (Date 2017 1 1) :: int cell] = Inr (Dt (Date 2017 1 1))"
  "col_max [Dt (Date 2017 1 2), Dt (Date 2017 1 1), Dt (Date 2017 1 1) :: int cell] = Inr (Dt (Date 2017 1 2))"
  by (simp_all add: getattr_def example_lp_def cell_at_def col_min_def col_max_def comparable_def
      List.map_filter_def date_le_def)

lemma format_example: "format_Ymd (Dt (Date 2017 1 1) :: int cell) = Inr ''Conectiv_20170101.txt''"
  by (simp add: format_Ymd_def string_defs)

lemma example_not_guarded:
  "\<not> isdir example_fs (work_dir @ ''Archive'')"
  "isdir example_fs (work_dir @ backslash @ ''Archive'')"
  "exists_path example_fs (work_dir @ backslash @ ''Archive'' @ backslash @ ''Conectiv_20170101.txt'')"
  "files example_fs (work_dir @ ''Conectiv_20170101.txt'') = None"
  by (simp_all add: isdir_def exists_path_def example_fs_def work_dir_def backslash_def)

lemma example_export_default:
  "fst (export_for_oracle example_lib example_self 0 None None example_world) = None"
  "fs (snd (export_for_oracle example_lib example_self 0 None None example_world))
     = write_file (work_dir @ ''Conectiv_20170101.txt'') (to_csv_lines example_lib example_out) example_fs"
proof -
  have p: "py_or None (dest_path example_self) = work_dir"
    by (simp add: py_or_def example_self_def)
  have a: "0 < length (heap example_world)" "heap example_world ! 0 = example_lp" "fs example_world = example_fs"
    by (simp_all add: example_world_def)
  have g: "\<not> (isdir (fs example_world) (py_or None (dest_path example_self) @ ''Archive'')
            \<and> exists_path (fs example_world)
                 (py_or None (dest_path example_self) @ ''Archive'' @ backslash @ ''Conectiv_20170101.txt''))"
    using example_not_guarded(1) by (simp add: p a)
  have n: "(if (None :: string option) = None \<or> None = Some [] then format_Ymd (Dt (Date 2017 1 1) :: int cell)
            else Inr (the None)) = Inr ''Conectiv_20170101.txt''"
    using format_example by simp
  define D :: "int series" where
    "D = \<lparr>s_index = RangeIndex 3, s_name = ''date'',
           s_values = [Dt (Date 2017 1 2), Dt (Date 2017 1 1), Dt (Date 2017 1 1)]\<rparr>"
  have d: "getattr (heap example_world ! 0) ''date'' = Inr D"
    "col_min (s_values D) = Inr (Dt (Date 2017 1 1))" "col_max (s_values D) = Inr (Dt (Date 2017 1 2))"
    using dates_example by (simp_all add: a D_def)
  have t: "export_table example_self (heap example_world ! 0) = Inr example_out"
    using export_table_example by (simp add: a)
  note u = export_for_oracle_unguarded[where lib = example_lib and path_arg = None and file_name_arg = None,
      OF a(1) d n g t]
  show "fst (export_for_oracle example_lib example_self 0 None None example_world) = None"
    using u(2) by (simp add: is_date_def)
  show "fs (snd (export_for_oracle example_lib example_self 0 None None example_world))
     = write_file (work_dir @ ''Conectiv_20170101.txt'') (to_csv_lines example_lib example_out) example_fs"
    using u(1) by (simp add: a p)
qed



text \<open>
  Claim C10. The caller's table is an object of the store, and the call leaves it as it
  was: index, columns and rows. The call changes no object that was in the store before;
  it only adds the tables that its method calls return.
\<close>

theorem export_leaves_lp_data_unchanged:
  assumes "lp_data < length (heap w)"
  shows "heap (snd (export_for_oracle lib self lp_data path_arg file_name_arg w)) ! lp_data = heap w ! lp_data
       \<and> take (length (heap w)) (heap (snd (export_for_oracle lib self lp_data path_arg file_name_arg w)))
           = heap w"
  using export_for_oracle_heap[OF assms, of lib self path_arg file_name_arg] assms
  by (auto simp: nth_append)

theorem export_leaves_lp_data_unchanged_witness:
  "0 < length (heap example_world)
   \<and> fst (export_for_oracle example_lib example_self 0 None None example_world) = None
   \<and> heap (snd (export_for_oracle example_lib example_self 0 None None example_world)) ! 0 = example_lp
   \<and> take 1 (heap (snd (export_for_oracle example_lib example_self 0 None None example_world)))
       = [example_lp]"
proof -
  have a: "0 < length (heap example_world)" "heap example_world = [example_lp]"
    by (simp_all add: example_world_def)
  show ?thesis
    using export_leaves_lp_data_unchanged[OF a(1), of example_lib example_self None None]
      example_export_default(1) a
    by simp
qed



lemma csv_example:
  "to_csv_lines example_lib example_out =
     map join_tab [[''A'', ''01/02/2017'', ''5.000'', []], [''B'', ''01/01/2017'', ''7.000'', []],
                   [''C'', [], [], []]]"
  by (simp add: to_csv_lines_def example_out_def example_lib_def string_defs)

lemma example_export_guarded:
  "export_for_oracle example_lib example_self 0 (Some (work_dir @ backslash)) None example_world
     = (Some FileExistsError, example_world)"
proof -
  have p: "py_or (Some (work_dir @ backslash)) (dest_path example_self) = work_dir @ backslash"
    by (simp add: py_or_def work_dir_def backslash_def)
  have a: "heap example_world ! 0 = example_lp" "fs example_world = example_fs"
    by (simp_all add: example_world_def)
  define D :: "int series" where
    "D = \<lparr>s_index = RangeIndex 3, s_name = ''date'',
           s_values = [Dt (Date 2017 1 2), Dt (Date 2017 1 1), Dt (Date 2017 1 1)]\<rparr>"
  have d: "getattr (heap example_world ! 0) ''date'' = Inr D"
    "col_min (s_values D) = Inr (Dt (Date 2017 1 1))" "col_max (s_values D) = Inr (Dt (Date 2017 1 2))"
    using dates_example by (simp_all add: a D_def)
  have n: "(if (None :: string option) = None \<or> None = Some [] then format_Ymd (Dt (Date 2017 1 1) :: int cell)
            else Inr (the None)) = Inr ''Conectiv_20170101.txt''"
    using format_example by simp
  have g: "isdir (fs example_world) (py_or (Some (work_dir @ backslash)) (dest_path example_self) @ ''Archive'')"
    "exists_path (fs example_world)
       (py_or (Some (work_dir @ backslash)) (dest_path example_self) @ ''Archive'' @ backslash
          @ ''Conectiv_20170101.txt'')"
    using example_not_guarded(2,3) by (simp_all add: p a)
  show ?thesis
    by (rule export_for_oracle_guarded[OF d n g])
qed

text \<open>
  Claim C8. The object is the one that the constructor makes with no arguments, so its
  destination is the working directory \<^verbatim>\<open>C:\work\<close>, as \<^verbatim>\<open>os.getcwd()\<close> gives it,
  with no separator at its end. The directory \<^verbatim>\<open>C:\work\Archive\<close> holds a file of the
  name that the export chooses, \<^verbatim>\<open>Conectiv_20170101.txt\<close>. The export does not fail:
  it tests \<^verbatim>\<open>C:\workArchive\<close>, which is no directory, and writes the three lines to
  \<^verbatim>\<open>C:\workConectiv_20170101.txt\<close>. The guard refuses the same call only when the
  caller passes the path with a separator at its end, and then nothing is written.
\<close>

theorem archived_name_exported_at_default_path:
  "init example_lib example_fs None None = Inr example_self
   \<and> dest_path example_self = getcwd example_fs
   \<and> isdir example_fs (getcwd example_fs @ sep example_fs @ ''Archive'')
   \<and> files example_fs (getcwd example_fs @ sep example_fs @ ''Archive'' @ sep example_fs @ ''Conectiv_20170101.txt'')
       = Some [''archived'']
   \<and> fst (export_for_oracle example_lib example_self 0 None None example_world) = None
   \<and> files (fs (snd (export_for_oracle example_lib example_self 0 None None example_world)))
        (work_dir @ ''Conectiv_20170101.txt'')
       = Some (map join_tab [[''A'', ''01/02/2017'', ''5.000'', []], [''B'', ''01/01/2017'', ''7.000'', []],
                             [''C'', [], [], []]])
   \<and> export_for_oracle example_lib example_self 0 (Some (work_dir @ backslash)) None example_world
       = (Some FileExistsError, example_world)"
proof -
  have a: "dest_path example_self = getcwd example_fs"
    by (simp add: example_self_def example_fs_def)
  have b: "isdir example_fs (getcwd example_fs @ sep example_fs @ ''Archive'')"
    "files example_fs (getcwd example_fs @ sep example_fs @ ''Archive'' @ sep example_fs @ ''Conectiv_20170101.txt'')
       = Some [''archived'']"
    by (simp_all add: isdir_def example_fs_def work_dir_def backslash_def)
  have c: "files (fs (snd (export_for_oracle example_lib example_self 0 None None example_world)))
        (work_dir @ ''Conectiv_20170101.txt'')
       = Some (map join_tab [[''A'', ''01/02/2017'', ''5.000'', []], [''B'', ''01/01/2017'', ''7.000'', []],
                             [''C'', [], [], []]])"
    unfolding example_export_default(2) csv_example[symmetric] by (simp add: write_file_def)
  show ?thesis
    using init_example a b c example_export_default(1) example_export_guarded by blast
qed


subsection \<open>Order of cells and sorting\<close>






















subsection \<open>The join\<close>















end
